theory Spec2Isabelle
  imports Main
begin

section \<open>JavaScript strings\<close>

text \<open>
  A JavaScript string is a sequence of UTF-16 code units; \<open>length\<close>, indexing and the
  regular expressions of the script (none carries the \<open>u\<close> flag) all work on code
  units. A code unit is modelled by its numeric value.
\<close>

type_synonym jstring = "nat list"

definition js :: "string \<Rightarrow> jstring" where
  "js s = map of_char s"

text \<open>The class \<open>\s\<close>, which is also what \<open>String.prototype.trim\<close> removes:
  WhiteSpace and LineTerminator of ECMA-262.\<close>

definition isWs :: "nat \<Rightarrow> bool" where
  "isWs c = (c = 9 \<or> c = 10 \<or> c = 11 \<or> c = 12 \<or> c = 13 \<or> c = 32 \<or> c = 160
     \<or> c = 5760 \<or> (8192 \<le> c \<and> c \<le> 8202) \<or> c = 8232 \<or> c = 8233 \<or> c = 8239
     \<or> c = 8287 \<or> c = 12288 \<or> c = 65279)"

text \<open>The characters that \<open>.\<close> does not match (no \<open>s\<close> flag).\<close>

definition isLineTerminator :: "nat \<Rightarrow> bool" where
  "isLineTerminator c = (c = 10 \<or> c = 13 \<or> c = 8232 \<or> c = 8233)"

text \<open>The class \<open>\w\<close>, which decides \<open>\b\<close>.\<close>

definition isWordChar :: "nat \<Rightarrow> bool" where
  "isWordChar c = ((48 \<le> c \<and> c \<le> 57) \<or> (65 \<le> c \<and> c \<le> 90) \<or> c = 95
     \<or> (97 \<le> c \<and> c \<le> 122))"

text \<open>
  Canonicalisation of the \<open>i\<close> flag. Without the \<open>u\<close> flag a code unit outside ASCII
  is never canonicalised to an ASCII one, and every pattern character of the script is
  ASCII, so upper-casing the ASCII letters decides every comparison.
\<close>

definition canon :: "nat \<Rightarrow> nat" where
  "canon c = (if 97 \<le> c \<and> c \<le> 122 then c - 32 else c)"

text \<open>A literal matched at the current position; the result is what follows the match.
  The flag says whether the pattern carries \<open>i\<close>.\<close>

fun lit :: "bool \<Rightarrow> jstring \<Rightarrow> jstring \<Rightarrow> jstring option" where
  "lit ci [] s = Some s"
| "lit ci (p # ps) [] = None"
| "lit ci (p # ps) (c # cs) =
     (if (if ci then canon p = canon c else p = c) then lit ci ps cs else None)"

definition startsWith :: "jstring \<Rightarrow> jstring \<Rightarrow> bool" where
  "startsWith p s = (lit False p s \<noteq> None)"

definition startsWithCI :: "jstring \<Rightarrow> jstring \<Rightarrow> bool" where
  "startsWithCI p s = (lit True p s \<noteq> None)"

text \<open>The leftmost position at which a matcher succeeds, the end of the input included,
  as a regular expression search tries the positions from left to right.\<close>

fun firstMatch :: "(jstring \<Rightarrow> 'a option) \<Rightarrow> jstring \<Rightarrow> 'a option" where
  "firstMatch m [] = m []"
| "firstMatch m (c # cs) =
     (case m (c # cs) of Some x \<Rightarrow> Some x | None \<Rightarrow> firstMatch m cs)"

text \<open>The same, also returning what stands before the match.\<close>

fun findBy :: "(jstring \<Rightarrow> 'a option) \<Rightarrow> jstring \<Rightarrow> (jstring \<times> 'a) option" where
  "findBy m [] = (case m [] of Some x \<Rightarrow> Some ([], x) | None \<Rightarrow> None)"
| "findBy m (c # cs) =
     (case m (c # cs) of
        Some x \<Rightarrow> Some ([], x)
      | None \<Rightarrow> (case findBy m cs of None \<Rightarrow> None | Some (b, x) \<Rightarrow> Some (c # b, x)))"

text \<open>\<open>p.test(s)\<close> for a pattern that is a literal.\<close>

definition containsStr :: "jstring \<Rightarrow> jstring \<Rightarrow> bool" where
  "containsStr p s = (firstMatch (lit False p) s \<noteq> None)"

definition containsCI :: "jstring \<Rightarrow> jstring \<Rightarrow> bool" where
  "containsCI p s = (firstMatch (lit True p) s \<noteq> None)"

definition trimStart :: "jstring \<Rightarrow> jstring" where
  "trimStart s = dropWhile isWs s"

definition trimEnd :: "jstring \<Rightarrow> jstring" where
  "trimEnd s = rev (dropWhile isWs (rev s))"

definition trim :: "jstring \<Rightarrow> jstring" where
  "trim s = trimEnd (trimStart s)"

definition endsWithChar :: "jstring \<Rightarrow> nat \<Rightarrow> bool" where
  "endsWithChar s c = (case rev s of [] \<Rightarrow> False | d # _ \<Rightarrow> d = c)"

text \<open>
  \<open>String.prototype.toLowerCase\<close> is the host's Unicode case mapping; the functions
  below take it as the parameter \<open>lower\<close>. On strings of ASCII code units it is
  \<open>asciiLower\<close>, which the concrete evaluations use.
\<close>

definition asciiLower :: "jstring \<Rightarrow> jstring" where
  "asciiLower s = map (\<lambda>c. if 65 \<le> c \<and> c \<le> 90 then c + 32 else c) s"

section \<open>Word boundaries\<close>

text \<open>
  \<open>\b\<close> holds between two positions exactly when one of the neighbouring code units
  is a word character and the other is not (the ends of the input count as not).
  A scan carries whether the code unit before the current position is a word character.
\<close>

definition atBoundary :: "bool \<Rightarrow> jstring \<Rightarrow> bool" where
  "atBoundary prevW s = (prevW \<noteq> (case s of [] \<Rightarrow> False | c # _ \<Rightarrow> isWordChar c))"

text \<open>\<open>\bw\b\<close> (flag \<open>i\<close>) matched at the current position, for a non-empty literal
  \<open>w\<close>; the code unit before the second \<open>\b\<close> is the one matched by the last
  character of \<open>w\<close>, a word character exactly when that one is.\<close>

definition wordAt :: "jstring \<Rightarrow> bool \<Rightarrow> jstring \<Rightarrow> bool" where
  "wordAt w prevW s =
     (if atBoundary prevW s
      then (case lit True w s of None \<Rightarrow> False | Some r \<Rightarrow> atBoundary (isWordChar (last w)) r)
      else False)"

text \<open>\<open>\bvs\.?\b\<close> (flag \<open>i\<close>) matched at the current position: the optional dot is
  tried first, then the match without it.\<close>

definition vsAt :: "bool \<Rightarrow> jstring \<Rightarrow> bool" where
  "vsAt prevW s =
     (if atBoundary prevW s
      then (case lit True (js ''vs'') s of
              None \<Rightarrow> False
            | Some r \<Rightarrow>
                (if (case r of [] \<Rightarrow> False | c # r' \<Rightarrow> c = 46 \<and> atBoundary False r')
                 then True else atBoundary True r))
      else False)"

text \<open>Try a position-dependent match at every position of the input, the end included.\<close>

fun anywhere :: "(bool \<Rightarrow> jstring \<Rightarrow> bool) \<Rightarrow> bool \<Rightarrow> jstring \<Rightarrow> bool" where
  "anywhere P prevW [] = P prevW []"
| "anywhere P prevW (c # cs) =
     (if P prevW (c # cs) then True else anywhere P (isWordChar c) cs)"

fun anyOf :: "('a \<Rightarrow> bool) \<Rightarrow> 'a list \<Rightarrow> bool" where
  "anyOf P [] = False"
| "anyOf P (w # ws) = (if P w then True else anyOf P ws)"

text \<open>\<open>/\b(w1|w2|...)\b/i.test(s)\<close>\<close>

definition hasWord :: "jstring list \<Rightarrow> jstring \<Rightarrow> bool" where
  "hasWord ws s = anywhere (\<lambda>prevW r. anyOf (\<lambda>w. wordAt w prevW r) ws) False s"

text \<open>\<open>/w1|w2|.../i.test(s)\<close>\<close>

definition hasAny :: "jstring list \<Rightarrow> jstring \<Rightarrow> bool" where
  "hasAny ws s = anyOf (\<lambda>w. containsCI w s) ws"

section \<open>The heading classifier\<close>

text \<open>\<open>/^(the|an?)\s+/i\<close> replaced by the empty string. \<open>\s+\<close> is greedy and the
  pattern ends there, so the whole run of white space goes.\<close>

definition wsRun :: "jstring \<Rightarrow> jstring option" where
  "wsRun s = (case s of [] \<Rightarrow> None | c # cs \<Rightarrow> if isWs c then Some (dropWhile isWs cs) else None)"

definition articleThen :: "jstring \<Rightarrow> jstring \<Rightarrow> jstring option" where
  "articleThen w s = (case lit True w s of None \<Rightarrow> None | Some r \<Rightarrow> wsRun r)"

definition stripArticle :: "jstring \<Rightarrow> jstring" where
  "stripArticle s =
     (case articleThen (js ''the'') s of
        Some r \<Rightarrow> r
      | None \<Rightarrow>
         (case articleThen (js ''an'') s of
            Some r \<Rightarrow> r
          | None \<Rightarrow> (case articleThen (js ''a'') s of Some r \<Rightarrow> r | None \<Rightarrow> s)))"

text \<open>
  \<open>/\s*[:\<dots>]\s*.*$/\<close> with the class holding the colon, the en dash (U+2013) and the
  em dash (U+2014), replaced by the empty string, first match only. A match at a
  position runs over white space to one of the three characters; what follows must
  reach the end of the input through \<open>\s*.*\<close>, that is, hold no line terminator after its
  leading white space. The match then extends to the end of the input, so the result
  is what stands before the leftmost position that matches.
\<close>

definition isSubtitleMark :: "nat \<Rightarrow> bool" where
  "isSubtitleMark c = (c = 58 \<or> c = 8211 \<or> c = 8212)"

definition subtitleAt :: "jstring \<Rightarrow> bool" where
  "subtitleAt s =
     (case dropWhile isWs s of
        [] \<Rightarrow> False
      | d # r \<Rightarrow>
          (if isSubtitleMark d then \<not> anyOf isLineTerminator (dropWhile isWs r) else False))"

fun stripSubtitle :: "jstring \<Rightarrow> jstring" where
  "stripSubtitle [] = []"
| "stripSubtitle (c # cs) = (if subtitleAt (c # cs) then [] else c # stripSubtitle cs)"

definition questionWords :: "jstring list" where
  "questionWords = map js [''how'', ''what'', ''why'', ''when'', ''where'', ''which'',
     ''does'', ''is'', ''can'', ''should'', ''do'']"

text \<open>\<open>/^(how|what|...|do)\s/i\<close>\<close>

definition questionWordAt :: "jstring \<Rightarrow> jstring \<Rightarrow> bool" where
  "questionWordAt h w =
     (case lit True w h of None \<Rightarrow> False | Some r \<Rightarrow> (case r of [] \<Rightarrow> False | c # _ \<Rightarrow> isWs c))"

definition startsLikeQuestion :: "jstring \<Rightarrow> bool" where
  "startsLikeQuestion h = anyOf (questionWordAt h) questionWords"

text \<open>\<open>/\bvs\.?\b|versus|compared/i\<close>\<close>

definition isComparison :: "jstring \<Rightarrow> bool" where
  "isComparison h =
     (if anywhere vsAt False h then True else hasAny [js ''versus'', js ''compared''] h)"

definition actionWords :: "jstring list" where
  "actionWords = map js [''effect'', ''impact'', ''influence'', ''affect'', ''interact'',
     ''deplet'', ''resynthes'', ''recover'', ''adapt'', ''respond'', ''contribut'', ''work'']"

definition pluralWords :: "jstring list" where
  "pluralWords = map js [''benefits'', ''advantages'', ''risks'', ''dangers'',
     ''side effects'', ''concerns'', ''differences'', ''types'', ''forms'', ''factors'',
     ''contributions'', ''strategies'', ''recommendations'', ''guidelines'',
     ''considerations'']"

definition dosingExclusion :: "jstring list" where
  "dosingExclusion = map js [''dosing'', ''dose'', ''protocol'']"

definition dosingWords :: "jstring list" where
  "dosingWords = map js [''dosing'', ''dose'', ''protocol'', ''timing'', ''loading'',
     ''cycle'', ''schedul'']"

definition safetyWords :: "jstring list" where
  "safetyWords = map js [''safe'', ''kidney'', ''liver'', ''hair'', ''blood'', ''heart'',
     ''health'']"

text \<open>The rule for headings with \<open>and\<close>: the conjunction as a word, and none of
  \<open>dosing\<close>, \<open>dose\<close>, \<open>protocol\<close> anywhere.\<close>

definition isRelationship :: "jstring \<Rightarrow> bool" where
  "isRelationship h = (if hasWord [js ''and''] h then \<not> hasAny dosingExclusion h else False)"

definition headingToQuestion :: "(jstring \<Rightarrow> jstring) \<Rightarrow> jstring \<Rightarrow> jstring \<Rightarrow> jstring" where
  "headingToQuestion lower heading category =
     (let h = trim (lower heading) in
      if endsWithChar h 63 then heading
      else
        let cleaned = stripSubtitle (stripArticle heading);
            lc = lower cleaned
        in
          if startsLikeQuestion h then heading @ js ''?''
          else if isComparison h then js ''How does '' @ lc @ js '' compare?''
          else if hasWord actionWords h then js ''How does '' @ lc @ js '' work?''
          else if hasWord pluralWords h then js ''What are the '' @ lc @ js ''?''
          else if isRelationship h then js ''What is the relationship between '' @ lc @ js ''?''
          else if hasAny dosingWords h then js ''What is the recommended '' @ lc @ js ''?''
          else if hasAny safetyWords h then js ''Is '' @ lc @ js '' safe?''
          else js ''What is the '' @ lc @ js ''?'')"


section \<open>Markup scanning\<close>

text \<open>\<open>[^>]*>\<close> from the current position: everything up to and including the next
  \<open>>\<close>. The class is greedy, but giving a character back never helps, since what has
  to follow it is the one character it excludes.\<close>

fun afterGt :: "jstring \<Rightarrow> jstring option" where
  "afterGt [] = None"
| "afterGt (c # cs) = (if c = 62 then Some cs else afterGt cs)"

text \<open>\<open>/<[^>]+>/\<close> at the current position.\<close>

definition tagAt :: "jstring \<Rightarrow> jstring option" where
  "tagAt s =
     (case s of
        [] \<Rightarrow> None
      | c # cs \<Rightarrow>
          (if c = 60
           then (case cs of [] \<Rightarrow> None | d # ds \<Rightarrow> if d = 62 then None else afterGt ds)
           else None))"

text \<open>
  \<open>s.replace(re, '')\<close> for a global pattern \<open>re\<close>, given as its matcher at a
  position (the result of the matcher is what follows the match). The search resumes
  where the match ended; an empty match removes nothing and the search moves on by one
  code unit.
\<close>

function removeMatches :: "(jstring \<Rightarrow> jstring option) \<Rightarrow> jstring \<Rightarrow> jstring" where
  "removeMatches m [] = []"
| "removeMatches m (c # cs) =
     (case m (c # cs) of
        None \<Rightarrow> c # removeMatches m cs
      | Some rest \<Rightarrow>
          (if length rest \<le> length cs then removeMatches m rest else c # removeMatches m cs))"
  by pat_completeness auto
termination
  by (relation "measure (\<lambda>(m, s). length s)") auto

definition stripTags :: "jstring \<Rightarrow> jstring" where
  "stripTags html = trim (removeMatches tagAt html)"

text \<open>\<open>OPEN[^>]*>([\s\S]*?)CLOSE\<close> at the current position, for literals \<open>OPEN\<close> and
  \<open>CLOSE\<close>: the group and what follows the match. The lazy group ends at the first
  \<open>CLOSE\<close>.\<close>

definition tagBody :: "bool \<Rightarrow> jstring \<Rightarrow> jstring \<Rightarrow> jstring \<Rightarrow> (jstring \<times> jstring) option" where
  "tagBody ci opn cls s =
     (case lit ci opn s of
        None \<Rightarrow> None
      | Some r \<Rightarrow> (case afterGt r of None \<Rightarrow> None | Some r1 \<Rightarrow> findBy (lit ci cls) r1))"

text \<open>\<open>([\s\S]*?)(?=m1|m2|...|$)\<close>: the lazy group ends at the first position where one
  of the literals starts (flag \<open>i\<close>), or at the end of the input.\<close>

fun untilLookahead :: "jstring list \<Rightarrow> jstring \<Rightarrow> jstring \<times> jstring" where
  "untilLookahead marks [] = ([], [])"
| "untilLookahead marks (c # cs) =
     (if anyOf (\<lambda>m. startsWithCI m (c # cs)) marks then ([], c # cs)
      else (case untilLookahead marks cs of (g, r) \<Rightarrow> (c # g, r)))"

section \<open>The fragment extractor\<close>

datatype h2section = Section (sHeading: jstring) (sAnswer: jstring)

definition sectionEnds :: "jstring list" where
  \<open>sectionEnds = [js ''<h2'', js ''</article>'', js ''<section class="references'',
     js ''<div class="cta-box'']\<close>

text \<open>The heading pattern of \<open>extractH2Sections\<close> (flags \<open>g\<close> and \<open>i\<close>) at the current
  position: both groups and what follows the match.\<close>

definition h2At :: "jstring \<Rightarrow> jstring \<Rightarrow> jstring list \<Rightarrow> jstring
    \<Rightarrow> (jstring \<times> jstring \<times> jstring) option" where
  "h2At opn cls marks s =
     (case tagBody True opn cls s of
        None \<Rightarrow> None
      | Some (g1, r) \<Rightarrow> (case untilLookahead marks r of (g2, rest) \<Rightarrow> Some (g1, g2, rest)))"

definition isReferences :: "jstring \<Rightarrow> bool" where
  "isReferences heading =
     hasAny [js ''references'', js ''bibliography'', js ''sources'', js ''citations''] heading"

definition isFaqHeading :: "jstring \<Rightarrow> bool" where
  "isFaqHeading heading = hasAny [js ''frequently asked'', js ''faq''] heading"

text \<open>\<open>content.match(/<p[^>]*>([\s\S]*?)<\/p>/)\<close>, the first group.\<close>

definition firstParagraph :: "jstring \<Rightarrow> jstring option" where
  "firstParagraph content =
     (case firstMatch (tagBody False (js ''<p'') (js ''</p>'')) content of
        None \<Rightarrow> None
      | Some (g, rest) \<Rightarrow> Some g)"

text \<open>The body of the loop for one match of the heading pattern.\<close>

definition loopBody :: "jstring \<Rightarrow> jstring \<Rightarrow> h2section list \<Rightarrow> h2section list" where
  "loopBody g1 content sections =
     (let heading = trim (stripTags g1) in
      if isReferences heading then sections
      else if isFaqHeading heading then sections
      else
        (case firstParagraph content of
           None \<Rightarrow> sections
         | Some p \<Rightarrow>
             (let answer = trim (stripTags p) in
              if 30 < length answer then sections @ [Section heading answer] else sections)))"


text \<open>Every match of the heading pattern ends strictly after it starts, so the loop over
  the matches ends.\<close>

lemma lit_length: "lit ci p s = Some r \<Longrightarrow> length s = length p + length r"
  by (induction ci p s rule: lit.induct) (auto split: if_splits)

lemma afterGt_length: "afterGt s = Some r \<Longrightarrow> length r < length s"
  by (induction s) (auto split: if_splits)

lemma findBy_lit_length: "findBy (lit ci p) s = Some (b, r) \<Longrightarrow> length r \<le> length s"
proof (induction s arbitrary: b)
  case Nil
  then show ?case by (auto split: option.splits dest: lit_length)
next
  case (Cons c cs)
  show ?case
  proof (cases "lit ci p (c # cs)")
    case None
    with Cons.prems obtain b' where "findBy (lit ci p) cs = Some (b', r)"
      by (auto split: option.splits)
    from Cons.IH [OF this] show ?thesis by simp
  next
    case (Some x)
    with Cons.prems have "x = r" by simp
    with Some show ?thesis by (auto dest: lit_length)
  qed
qed

lemma untilLookahead_length: "untilLookahead marks s = (g, r) \<Longrightarrow> length r \<le> length s"
  by (induction s arbitrary: g) (auto split: if_splits prod.splits)

lemma tagBody_length: "tagBody ci opn cls s = Some (g, r) \<Longrightarrow> length r < length s"
  unfolding tagBody_def
  by (auto split: option.splits dest!: lit_length afterGt_length findBy_lit_length)

lemma h2At_length: "h2At opn cls marks s = Some (g1, g2, rest) \<Longrightarrow> length rest < length s"
  unfolding h2At_def
  by (auto split: option.splits prod.splits dest!: tagBody_length untilLookahead_length)

lemma firstMatch_h2At_length:
  "firstMatch (h2At opn cls marks) s = Some (g1, g2, rest) \<Longrightarrow> length rest < length s"
proof (induction s)
  case Nil
  then show ?case by (auto dest: h2At_length)
next
  case (Cons c cs)
  then show ?case by (fastforce split: option.splits dest: h2At_length)
qed

text \<open>
  The loop \<open>while ((match = h2Regex.exec(articleHtml)) !== null)\<close>: each search starts
  where the previous match ended (\<open>lastIndex\<close>); the sections are pushed in the order of
  the matches.
\<close>

function extractLoop :: "jstring \<Rightarrow> h2section list \<Rightarrow> h2section list" where
  "extractLoop s sections =
     (case firstMatch (h2At (js ''<h2'') (js ''</h2>'') sectionEnds) s of
        None \<Rightarrow> sections
      | Some (g1, content, rest) \<Rightarrow> extractLoop rest (loopBody g1 content sections))"
  by pat_completeness auto
termination
  by (relation "measure (\<lambda>(s, sections). length s)") (auto dest: firstMatch_h2At_length)

declare extractLoop.simps [simp del]

definition extractH2Sections :: "jstring \<Rightarrow> h2section list" where
  "extractH2Sections articleHtml = extractLoop articleHtml []"

section \<open>The FAQ synthesizer\<close>

datatype qaPair = QA (question: jstring) (qAnswer: jstring)

definition nl :: jstring where
  "nl = [10]"

definition faqItem :: "qaPair \<Rightarrow> jstring" where
  \<open>faqItem qa =
     nl @ js ''        <div class="faq-item">'' @
     nl @ js ''          <h3>'' @ question qa @ js ''</h3>'' @
     nl @ js ''          <p>'' @ qAnswer qa @ js ''</p>'' @
     nl @ js ''        </div>''\<close>

definition buildFaqHtml :: "qaPair list \<Rightarrow> jstring" where
  \<open>buildFaqHtml qaPairs =
     nl @ js ''      <section class="faq-section">'' @
     nl @ js ''        <h2>Frequently Asked Questions</h2>'' @
     nl @ js ''        '' @ concat (map faqItem qaPairs) @
     nl @ js ''      </section>''\<close>

text \<open>
  \<open>JSON.stringify\<close> of a string (QuoteJSONString): the quotation mark, the backslash and
  the control characters are escaped, a surrogate that is not part of a pair is written
  as \<open>\uXXXX\<close>, everything else stands for itself.
\<close>

definition hexDigit :: "nat \<Rightarrow> nat" where
  "hexDigit n = (if n < 10 then 48 + n else 87 + n)"

definition unicodeEscape :: "nat \<Rightarrow> jstring" where
  "unicodeEscape c =
     [92, 117, hexDigit (c div 4096 mod 16), hexDigit (c div 256 mod 16),
      hexDigit (c div 16 mod 16), hexDigit (c mod 16)]"

definition isLeadSurrogate :: "nat \<Rightarrow> bool" where
  "isLeadSurrogate c = (55296 \<le> c \<and> c \<le> 56319)"

definition isTrailSurrogate :: "nat \<Rightarrow> bool" where
  "isTrailSurrogate c = (56320 \<le> c \<and> c \<le> 57343)"

definition quoteUnit :: "nat \<Rightarrow> jstring" where
  "quoteUnit c =
     (if c = 8 then [92, 98]
      else if c = 9 then [92, 116]
      else if c = 10 then [92, 110]
      else if c = 12 then [92, 102]
      else if c = 13 then [92, 114]
      else if c = 34 then [92, 34]
      else if c = 92 then [92, 92]
      else if c < 32 then unicodeEscape c
      else if isLeadSurrogate c then unicodeEscape c
      else if isTrailSurrogate c then unicodeEscape c
      else [c])"

fun quoteBody :: "jstring \<Rightarrow> jstring" where
  "quoteBody [] = []"
| "quoteBody [c] = quoteUnit c"
| "quoteBody (c # d # r) =
     (if isLeadSurrogate c
      then (if isTrailSurrogate d then c # d # quoteBody r else quoteUnit c @ quoteBody (d # r))
      else quoteUnit c @ quoteBody (d # r))"

definition quoteJSONString :: "jstring \<Rightarrow> jstring" where
  "quoteJSONString s = [34] @ quoteBody s @ [34]"

fun joinWith :: "jstring \<Rightarrow> jstring list \<Rightarrow> jstring" where
  "joinWith sep [] = []"
| "joinWith sep [x] = x"
| "joinWith sep (x # y # ys) = x @ sep @ joinWith sep (y # ys)"

text \<open>One entry of \<open>mainEntity\<close> as \<open>JSON.stringify(_, null, 2)\<close> prints it at depth two.\<close>

definition questionJson :: "qaPair \<Rightarrow> jstring" where
  \<open>questionJson qa =
     js ''{'' @
     nl @ js ''      "@type": "Question",'' @
     nl @ js ''      "name": '' @ quoteJSONString (question qa) @ js '','' @
     nl @ js ''      "acceptedAnswer": {'' @
     nl @ js ''        "@type": "Answer",'' @
     nl @ js ''        "text": '' @ quoteJSONString (qAnswer qa) @
     nl @ js ''      }'' @
     nl @ js ''    }''\<close>

definition mainEntityJson :: "qaPair list \<Rightarrow> jstring" where
  \<open>mainEntityJson qaPairs =
     (if qaPairs = [] then js ''[]''
      else js ''['' @ nl @
           joinWith (js '','' @ nl) (map (\<lambda>qa. js ''    '' @ questionJson qa) qaPairs) @
           nl @ js ''  ]'')\<close>

text \<open>The second argument of \<open>buildFaqSchema\<close> is not used by the script.\<close>

definition buildFaqSchema :: "qaPair list \<Rightarrow> jstring \<Rightarrow> jstring" where
  \<open>buildFaqSchema qaPairs url =
     js ''{'' @
     nl @ js ''  "@context": "https://schema.org",'' @
     nl @ js ''  "@type": "FAQPage",'' @
     nl @ js ''  "mainEntity": '' @ mainEntityJson qaPairs @
     nl @ js ''}''\<close>


section \<open>Removing earlier output\<close>

text \<open>\<open>\s*P\<close> at the current position, for a literal \<open>P\<close> that does not start with
  white space: the greedy \<open>\s*\<close> takes the whole run.\<close>

definition wsLit :: "jstring \<Rightarrow> jstring \<Rightarrow> jstring option" where
  "wsLit p s = lit False p (dropWhile isWs s)"

text \<open>\<open>A\s*B\<close> at the current position.\<close>

definition litWsLit :: "jstring \<Rightarrow> jstring \<Rightarrow> jstring \<Rightarrow> jstring option" where
  "litWsLit a b s = (case lit False a s of None \<Rightarrow> None | Some r \<Rightarrow> wsLit b r)"

text \<open>\<open>\s*OPEN[\s\S]*?CLOSE\<close> at the current position.\<close>

definition blockAt :: "jstring \<Rightarrow> jstring \<Rightarrow> jstring \<Rightarrow> jstring option" where
  "blockAt opn cls s =
     (case wsLit opn s of
        None \<Rightarrow> None
      | Some r \<Rightarrow> (case findBy (lit False cls) r of None \<Rightarrow> None | Some (b, rest) \<Rightarrow> Some rest))"

text \<open>
  The pattern for an earlier FAQ schema at the current position,
  \<open>\s*SCRIPT\s*\{[\s\S]*?"@type":\s*"FAQPage"[\s\S]*?\}\s*<\/script>\n?\<close>.
  The first lazy group ends at the first \<open>"@type":\s*"FAQPage"\<close> after the opening
  brace, wherever that is, and the second at the first \<open>\}\s*<\/script>\<close> after that:
  a later choice for the first group leaves only less input to the second.
\<close>

definition faqSchemaAt :: "jstring \<Rightarrow> jstring \<Rightarrow> jstring \<Rightarrow> jstring \<Rightarrow> jstring \<Rightarrow> jstring
    \<Rightarrow> jstring \<Rightarrow> jstring option" where
  "faqSchemaAt scriptOpen brace typeKey faqPage closeBrace scriptClose s =
     (case wsLit scriptOpen s of
        None \<Rightarrow> None
      | Some r \<Rightarrow>
     (case wsLit brace r of
        None \<Rightarrow> None
      | Some r1 \<Rightarrow>
     (case firstMatch (litWsLit typeKey faqPage) r1 of
        None \<Rightarrow> None
      | Some r2 \<Rightarrow>
     (case firstMatch (litWsLit closeBrace scriptClose) r2 of
        None \<Rightarrow> None
      | Some r3 \<Rightarrow> Some (case r3 of [] \<Rightarrow> [] | c # r4 \<Rightarrow> if c = 10 then r4 else c # r4)))))"

definition stripExistingFaq :: "jstring \<Rightarrow> jstring" where
  \<open>stripExistingFaq html =
     (let cleaned =
            removeMatches (blockAt (js ''<section class="faq-section">'') (js ''</section>'')) html
      in removeMatches
           (faqSchemaAt (js ''<script type="application/ld+json">'') (js ''{'')
              (js ''"@type":'') (js ''"FAQPage"'') (js ''}'') (js ''</script>''))
           cleaned)\<close>

section \<open>Injection\<close>

text \<open>
  \<open>s.replace(pattern, replacement)\<close> with a string pattern replaces the first occurrence.
  The replacement is a template: \<open>$$\<close> stands for a dollar sign, \<open>$&\<close> for the
  match, \<open>$`\<close> for what precedes it and \<open>$'\<close> for what follows it. A string pattern
  has no groups, so every other \<open>$\<close> stands for itself.
\<close>

fun getSubstitution :: "jstring \<Rightarrow> jstring \<Rightarrow> jstring \<Rightarrow> jstring \<Rightarrow> jstring" where
  "getSubstitution matched before after [] = []"
| "getSubstitution matched before after [c] = [c]"
| "getSubstitution matched before after (c # d # r) =
     (if c = 36
      then (if d = 36 then 36 # getSubstitution matched before after r
            else if d = 38 then matched @ getSubstitution matched before after r
            else if d = 96 then before @ getSubstitution matched before after r
            else if d = 39 then after @ getSubstitution matched before after r
            else c # getSubstitution matched before after (d # r))
      else c # getSubstitution matched before after (d # r))"

definition replaceFirst :: "jstring \<Rightarrow> jstring \<Rightarrow> jstring \<Rightarrow> jstring" where
  "replaceFirst pat repl s =
     (case findBy (lit False pat) s of
        None \<Rightarrow> s
      | Some (before, after) \<Rightarrow> before @ getSubstitution pat before after repl @ after)"

text \<open>\<open>html.match(/<article[^>]*>([\s\S]*?)<\/article>/)\<close>, the first group.\<close>

definition articleMatch :: "jstring \<Rightarrow> jstring option" where
  "articleMatch html =
     (case firstMatch (tagBody False (js ''<article'') (js ''</article>'')) html of
        None \<Rightarrow> None
      | Some (g, rest) \<Rightarrow> Some g)"

definition toQaPairs :: "(jstring \<Rightarrow> jstring) \<Rightarrow> jstring \<Rightarrow> h2section list \<Rightarrow> qaPair list" where
  "toQaPairs lower category topSections =
     map (\<lambda>s. QA (headingToQuestion lower (sHeading s) category) (sAnswer s)) topSections"

text \<open>The two insertions, before the first \<open></article>\<close> and before the first
  \<open></head>\<close>.\<close>

definition insertFaq :: "jstring \<Rightarrow> qaPair list \<Rightarrow> jstring \<Rightarrow> jstring \<Rightarrow> jstring" where
  \<open>insertFaq html qaPairs category slug =
     (let faqHtml = buildFaqHtml qaPairs;
          url = js ''https://creatinepedia.com/'' @ category @ js ''/'' @ slug;
          faqSchema = buildFaqSchema qaPairs url;
          newHtml = replaceFirst (js ''</article>'') (faqHtml @ nl @ js ''      </article>'') html;
          faqSchemaTag = js ''  <script type="application/ld+json">'' @ nl @ js ''  '' @
                         faqSchema @ nl @ js ''  </script>'' @ nl
      in replaceFirst (js ''</head>'') (faqSchemaTag @ js ''</head>'') newHtml)\<close>

definition injectFaq :: "(jstring \<Rightarrow> jstring) \<Rightarrow> jstring \<Rightarrow> jstring \<Rightarrow> jstring \<Rightarrow> jstring \<times> bool" where
  "injectFaq lower html0 category slug =
     (let html = stripExistingFaq html0 in
      case articleMatch html of
        None \<Rightarrow> (html, False)
      | Some articleContent \<Rightarrow>
          (let sections = extractH2Sections articleContent in
           if length sections < 3 then (html, False)
           else
             (let topSections = take 5 sections;
                  qaPairs = toQaPairs lower category topSections
              in (insertFaq html qaPairs category slug, True))))"

section \<open>The batch run\<close>

text \<open>
  The file system as the script sees it. A directory of the list either does not exist,
  or is listed by \<open>readdirSync\<close>, or makes \<open>readdirSync\<close> throw. A name of a listing
  is read by \<open>readFileSync\<close>, which returns the content or throws; \<open>writeFileSync\<close>
  replaces the content or throws. A path is a pair of a directory and a name.
\<close>

datatype dirEntry = Listing "jstring list" | NotListable jstring

datatype node = File (fileContent: jstring) (writeError: "jstring option") | Unreadable jstring

record runState =
  dirs :: "jstring \<Rightarrow> dirEntry option"
  nodes :: "jstring \<times> jstring \<Rightarrow> node"
  total :: nat
  skipped :: nat
  errors :: "jstring list"
  count :: nat

definition HTML_SOURCE_DIRS :: "jstring list" where
  "HTML_SOURCE_DIRS = map js [''science'', ''dosing'', ''sports'', ''safety'', ''comparisons'',
     ''quality'']"

definition endsWith :: "jstring \<Rightarrow> jstring \<Rightarrow> bool" where
  "endsWith suffix s = startsWith (rev suffix) (rev s)"

text \<open>
  One iteration of the loop over the files of a directory. The read stands before the
  \<open>try\<close> block: what it throws (\<open>Inl\<close>) leaves the loop and the run. What the write
  throws is caught and recorded.
\<close>

definition processFile :: "(jstring \<Rightarrow> jstring) \<Rightarrow> jstring \<Rightarrow> jstring \<Rightarrow> runState
    \<Rightarrow> (jstring \<times> runState) + runState" where
  "processFile lower dir file st =
     (case nodes st (dir, file) of
        Unreadable e \<Rightarrow> Inl (e, st)
      | File html werr \<Rightarrow>
          (let slug = replaceFirst (js ''.html'') [] file in
           case injectFaq lower html dir slug of
             (newHtml, injected) \<Rightarrow>
               (if injected
                then (case werr of
                        Some e \<Rightarrow> Inr (st\<lparr>errors := errors st @ [dir @ js ''/'' @ file @ js '': '' @ e]\<rparr>)
                      | None \<Rightarrow>
                          Inr (st\<lparr>nodes := (nodes st)((dir, file) := File newHtml werr),
                                  count := count st + 1\<rparr>))
                else Inr (st\<lparr>skipped := skipped st + 1\<rparr>))))"

fun forFiles :: "(jstring \<Rightarrow> jstring) \<Rightarrow> jstring \<Rightarrow> jstring list \<Rightarrow> runState
    \<Rightarrow> (jstring \<times> runState) + runState" where
  "forFiles lower dir [] st = Inr st"
| "forFiles lower dir (file # files) st =
     (case processFile lower dir file st of
        Inl e \<Rightarrow> Inl e
      | Inr st' \<Rightarrow> forFiles lower dir files st')"

definition isArticleFile :: "jstring \<Rightarrow> bool" where
  "isArticleFile f = (if endsWith (js ''.html'') f then f \<noteq> js ''index.html'' else False)"

definition processDir :: "(jstring \<Rightarrow> jstring) \<Rightarrow> jstring \<Rightarrow> runState
    \<Rightarrow> (jstring \<times> runState) + runState" where
  "processDir lower dir st =
     (case dirs st dir of
        None \<Rightarrow> Inr st
      | Some (NotListable e) \<Rightarrow> Inl (e, st)
      | Some (Listing names) \<Rightarrow>
          (case forFiles lower dir (filter isArticleFile names) (st\<lparr>count := 0\<rparr>) of
             Inl e \<Rightarrow> Inl e
           | Inr st' \<Rightarrow> Inr (st'\<lparr>total := total st' + count st'\<rparr>)))"

fun forDirs :: "(jstring \<Rightarrow> jstring) \<Rightarrow> jstring list \<Rightarrow> runState
    \<Rightarrow> (jstring \<times> runState) + runState" where
  "forDirs lower [] st = Inr st"
| "forDirs lower (dir # ds) st =
     (case processDir lower dir st of
        Inl e \<Rightarrow> Inl e
      | Inr st' \<Rightarrow> forDirs lower ds st')"

definition run :: "(jstring \<Rightarrow> jstring) \<Rightarrow> (jstring \<Rightarrow> dirEntry option)
    \<Rightarrow> (jstring \<times> jstring \<Rightarrow> node) \<Rightarrow> (jstring \<times> runState) + runState" where
  "run lower ds ns =
     forDirs lower HTML_SOURCE_DIRS
       \<lparr>dirs = ds, nodes = ns, total = 0, skipped = 0, errors = [], count = 0\<rparr>"

section \<open>Properties of the scanners\<close>

lemma anyOf_iff: "anyOf P xs \<longleftrightarrow> (\<exists>x\<in>set xs. P x)"
  by (induction xs) auto

lemma hasAny_mono: "set ws \<subseteq> set ws' \<Longrightarrow> hasAny ws s \<Longrightarrow> hasAny ws' s"
  by (auto simp: hasAny_def anyOf_iff)

lemma dosingExclusion_subset: "set dosingExclusion \<subseteq> set dosingWords"
  by (simp add: dosingExclusion_def dosingWords_def)



lemma dropWhile_rev_prefix:
  "\<exists>w. u = rev (dropWhile P (rev u)) @ w"
proof -
  have "rev (dropWhile P (rev u)) @ rev (takeWhile P (rev u))
      = rev (takeWhile P (rev u) @ dropWhile P (rev u))"
    by (simp only: rev_append)
  also have "\<dots> = rev (rev u)" by (simp only: takeWhile_dropWhile_id)
  also have "\<dots> = u" by simp
  finally show ?thesis by metis
qed

lemma trimStart_trim: "trimStart (trim s) = trim s"
proof (cases "trim s")
  case Nil
  then show ?thesis by (simp add: trimStart_def)
next
  case (Cons x xs)
  define u where "u = dropWhile isWs s"
  obtain w where w: "u = trim s @ w"
    using dropWhile_rev_prefix [of u isWs] by (auto simp: trim_def trimEnd_def trimStart_def u_def)
  with Cons have "u \<noteq> []" "hd u = x" by auto
  then have "\<not> isWs x"
    using hd_dropWhile [of isWs s] by (simp add: u_def)
  with Cons show ?thesis by (simp add: trimStart_def)
qed

lemma trimEnd_trimEnd: "trimEnd (trimEnd s) = trimEnd s"
  by (simp add: trimEnd_def dropWhile_idem)

lemma trim_idem: "trim (trim s) = trim s"
proof -
  have "trim (trim s) = trimEnd (trim s)"
    by (simp add: trim_def [of "trim s"] trimStart_trim)
  also have "\<dots> = trim s"
    by (simp add: trim_def trimEnd_trimEnd)
  finally show ?thesis .
qed

lemma last_dropWhile:
  assumes "s \<noteq> []" and "\<not> P (last s)"
  shows "dropWhile P s \<noteq> [] \<and> last (dropWhile P s) = last s"
  using assms by (induction s) (auto split: if_splits)

lemma trimEnd_id:
  assumes "s \<noteq> []" and "\<not> isWs (last s)"
  shows "trimEnd s = s"
  using assms
proof (induction s rule: rev_induct)
  case Nil
  then show ?case by simp
next
  case (snoc x xs)
  then show ?case by (simp add: trimEnd_def)
qed

lemma trim_last:
  assumes "s \<noteq> []" and "\<not> isWs (last s)"
  shows "trim s \<noteq> [] \<and> last (trim s) = last s"
proof -
  from last_dropWhile [where P = isWs and s = s, OF assms]
  have d: "dropWhile isWs s \<noteq> []" "last (dropWhile isWs s) = last s" by auto
  with assms(2) have "trimEnd (dropWhile isWs s) = dropWhile isWs s"
    by (intro trimEnd_id) auto
  with d show ?thesis by (simp add: trim_def trimStart_def)
qed

lemma endsWithChar_iff: "endsWithChar s c \<longleftrightarrow> s \<noteq> [] \<and> last s = c"
  by (cases "rev s") (auto simp: endsWithChar_def last_rev [symmetric] simp del: last_rev)

lemma asciiLower_trimmed_question:
  assumes "heading = [] \<or> \<not> isWs (last heading)"
    and "endsWithChar (trim (asciiLower heading)) 63"
  shows "endsWithChar heading 63"
proof (cases "heading = []")
  case True
  with assms(2) show ?thesis by (simp add: asciiLower_def trim_def trimStart_def trimEnd_def endsWithChar_def)
next
  case False
  with assms(1) have nw: "\<not> isWs (last heading)" by simp
  define f where "f = (\<lambda>c::nat. if 65 \<le> c \<and> c \<le> 90 then c + 32 else c)"
  have m: "asciiLower heading = map f heading" by (simp add: asciiLower_def f_def)
  have l: "last (asciiLower heading) = f (last heading)" "asciiLower heading \<noteq> []"
    using False by (simp_all add: m last_map)
  have "\<not> isWs (f (last heading))"
    using nw by (auto simp: f_def isWs_def)
  with l have "trim (asciiLower heading) \<noteq> [] \<and> last (trim (asciiLower heading)) = f (last heading)"
    using trim_last [of "asciiLower heading"] by simp
  with assms(2) have "f (last heading) = 63" by (simp add: endsWithChar_iff)
  then have "last heading = 63" by (auto simp: f_def split: if_splits)
  with False show ?thesis by (simp add: endsWithChar_iff)
qed


lemma trim_stripTags: "trim (stripTags s) = stripTags s"
  by (simp add: stripTags_def trim_idem)
















lemma loopBody_dropped:
  assumes "isReferences (stripTags g1) \<or> isFaqHeading (stripTags g1)"
  shows "loopBody g1 content sections = sections"
  using assms by (auto simp: loopBody_def Let_def trim_stripTags)

lemma loopBody_invariant:
  assumes "\<forall>s\<in>set sections. \<not> isReferences (sHeading s) \<and> \<not> isFaqHeading (sHeading s)"
  shows "\<forall>s\<in>set (loopBody g1 content sections).
           \<not> isReferences (sHeading s) \<and> \<not> isFaqHeading (sHeading s)"
  using assms by (auto simp: loopBody_def Let_def trim_stripTags split: option.splits if_splits)

lemma extractLoop_invariant:
  assumes "\<forall>s\<in>set sections. \<not> isReferences (sHeading s) \<and> \<not> isFaqHeading (sHeading s)"
  shows "\<forall>s\<in>set (extractLoop html sections).
           \<not> isReferences (sHeading s) \<and> \<not> isFaqHeading (sHeading s)"
  using assms
proof (induction html sections rule: extractLoop.induct)
  case (1 s sections)
  show ?case
  proof (cases "firstMatch (h2At (js ''<h2'') (js ''</h2>'') sectionEnds) s")
    case None
    with 1(2) show ?thesis by (simp add: extractLoop.simps [of s])
  next
    case (Some m)
    obtain g1 content rest where m: "m = (g1, content, rest)" by (cases m) auto
    have "\<forall>x\<in>set (extractLoop rest (loopBody g1 content sections)).
            \<not> isReferences (sHeading x) \<and> \<not> isFaqHeading (sHeading x)"
      using 1(1) [OF Some [unfolded m] refl refl loopBody_invariant [OF 1(2)]] .
    with Some m show ?thesis by (simp add: extractLoop.simps [of s])
  qed
qed

section \<open>Properties of the rewrite and of the batch run\<close>

text \<open>A page qualifies when, after the removal of earlier output, the article pattern
  matches and at least three sections are extracted.\<close>

definition qualifies :: "jstring \<Rightarrow> bool" where
  "qualifies html =
     (case articleMatch (stripExistingFaq html) of
        None \<Rightarrow> False
      | Some articleContent \<Rightarrow> 3 \<le> length (extractH2Sections articleContent))"

definition finalState :: "(jstring \<times> runState) + runState \<Rightarrow> runState" where
  "finalState r = (case r of Inl (e, st) \<Rightarrow> st | Inr st \<Rightarrow> st)"

definition untouched :: "(jstring \<times> jstring \<Rightarrow> node) \<Rightarrow> runState \<Rightarrow> bool" where
  "untouched ns st =
     (\<forall>p. nodes st p \<noteq> ns p \<longrightarrow> (\<exists>html werr. ns p = File html werr \<and> qualifies html))"

lemma injectFaq_skip:
  "\<not> qualifies html \<Longrightarrow> injectFaq lower html category slug = (stripExistingFaq html, False)"
  by (auto simp: qualifies_def injectFaq_def Let_def split: option.splits)

lemma injectFaq_injected: "snd (injectFaq lower html category slug) = qualifies html"
  by (auto simp: qualifies_def injectFaq_def Let_def split: option.splits)




lemma processFile_untouched:
  assumes "untouched ns st"
  shows "untouched ns (finalState (processFile lower dir file st))"
proof (cases "nodes st (dir, file)")
  case (Unreadable e)
  with assms show ?thesis by (simp add: processFile_def finalState_def)
next
  case (File html werr)
  obtain newHtml injected where inj:
    "injectFaq lower html dir (replaceFirst (js ''.html'') [] file) = (newHtml, injected)"
    by (cases "injectFaq lower html dir (replaceFirst (js ''.html'') [] file)") auto
  then have q: "injected = qualifies html"
    using injectFaq_injected [of lower html dir "replaceFirst (js ''.html'') [] file"] by simp
  show ?thesis
  proof (cases "injected \<and> werr = None")
    case False
    with File inj assms show ?thesis
      by (auto simp: processFile_def finalState_def Let_def untouched_def split: option.splits)
  next
    case True
    then have fs: "finalState (processFile lower dir file st) =
        st\<lparr>nodes := (nodes st)((dir, file) := File newHtml werr), count := count st + 1\<rparr>"
      using File inj by (simp add: processFile_def finalState_def Let_def)
    have "\<exists>h w. ns (dir, file) = File h w \<and> qualifies h"
    proof (cases "nodes st (dir, file) = ns (dir, file)")
      case True
      with File q \<open>injected \<and> werr = None\<close> show ?thesis by auto
    next
      case False
      with assms show ?thesis by (simp add: untouched_def)
    qed
    with assms show ?thesis
      unfolding fs untouched_def by auto
  qed
qed

lemma forFiles_untouched:
  "untouched ns st \<Longrightarrow> untouched ns (finalState (forFiles lower dir files st))"
proof (induction files arbitrary: st)
  case Nil
  then show ?case by (simp add: finalState_def)
next
  case (Cons f fs)
  show ?case
  proof (cases "processFile lower dir f st")
    case (Inl e)
    with processFile_untouched [OF Cons.prems, of lower dir f] show ?thesis by simp
  next
    case (Inr st')
    with processFile_untouched [OF Cons.prems, of lower dir f]
    have "untouched ns st'" by (simp add: finalState_def)
    from Cons.IH [OF this] Inr show ?thesis by simp
  qed
qed

lemma untouched_fields:
  "untouched ns (st\<lparr>count := c\<rparr>) = untouched ns st"
  "untouched ns (st\<lparr>total := t\<rparr>) = untouched ns st"
  by (simp_all add: untouched_def)

lemma processDir_untouched:
  assumes "untouched ns st"
  shows "untouched ns (finalState (processDir lower dir st))"
proof (cases "dirs st dir")
  case None
  with assms show ?thesis by (simp add: processDir_def finalState_def)
next
  case (Some d)
  show ?thesis
  proof (cases d)
    case (NotListable e)
    with Some assms show ?thesis by (simp add: processDir_def finalState_def)
  next
    case (Listing names)
    have u: "untouched ns (finalState (forFiles lower dir (filter isArticleFile names) (st\<lparr>count := 0\<rparr>)))"
      using assms by (intro forFiles_untouched) (simp add: untouched_fields)
    show ?thesis
    proof (cases "forFiles lower dir (filter isArticleFile names) (st\<lparr>count := 0\<rparr>)")
      case (Inl e)
      with u Some Listing show ?thesis by (simp add: processDir_def)
    next
      case (Inr st')
      with u Some Listing show ?thesis
        by (simp add: processDir_def finalState_def untouched_fields)
    qed
  qed
qed

lemma forDirs_untouched:
  "untouched ns st \<Longrightarrow> untouched ns (finalState (forDirs lower ds st))"
proof (induction ds arbitrary: st)
  case Nil
  then show ?case by (simp add: finalState_def)
next
  case (Cons dir ds)
  show ?case
  proof (cases "processDir lower dir st")
    case (Inl e)
    with processDir_untouched [OF Cons.prems, of lower dir] show ?thesis by simp
  next
    case (Inr st')
    with processDir_untouched [OF Cons.prems, of lower dir]
    have "untouched ns st'" by (simp add: finalState_def)
    from Cons.IH [OF this] Inr show ?thesis by simp
  qed
qed

lemma run_untouched: "untouched ns (finalState (run lower ds ns))"
  unfolding run_def by (rule forDirs_untouched) (simp add: untouched_def)

section \<open>Evaluation rules\<close>

text \<open>
  Equations that evaluate the scanners on a concrete page one code unit at a time. Each
  one follows from the definition it unfolds; the auxiliary constants hold what a
  function still has to do once a test or a match at the current position is known.
\<close>

lemma of_char_ascii:
  "of_char (CHR 0x20) = (32::nat)"
  "of_char (CHR 0x21) = (33::nat)"
  "of_char (CHR 0x22) = (34::nat)"
  "of_char (CHR 0x23) = (35::nat)"
  "of_char (CHR 0x24) = (36::nat)"
  "of_char (CHR 0x25) = (37::nat)"
  "of_char (CHR 0x26) = (38::nat)"
  "of_char (CHR 0x27) = (39::nat)"
  "of_char (CHR 0x28) = (40::nat)"
  "of_char (CHR 0x29) = (41::nat)"
  "of_char (CHR 0x2A) = (42::nat)"
  "of_char (CHR 0x2B) = (43::nat)"
  "of_char (CHR 0x2C) = (44::nat)"
  "of_char (CHR 0x2D) = (45::nat)"
  "of_char (CHR 0x2E) = (46::nat)"
  "of_char (CHR 0x2F) = (47::nat)"
  "of_char (CHR 0x30) = (48::nat)"
  "of_char (CHR 0x31) = (49::nat)"
  "of_char (CHR 0x32) = (50::nat)"
  "of_char (CHR 0x33) = (51::nat)"
  "of_char (CHR 0x34) = (52::nat)"
  "of_char (CHR 0x35) = (53::nat)"
  "of_char (CHR 0x36) = (54::nat)"
  "of_char (CHR 0x37) = (55::nat)"
  "of_char (CHR 0x38) = (56::nat)"
  "of_char (CHR 0x39) = (57::nat)"
  "of_char (CHR 0x3A) = (58::nat)"
  "of_char (CHR 0x3B) = (59::nat)"
  "of_char (CHR 0x3C) = (60::nat)"
  "of_char (CHR 0x3D) = (61::nat)"
  "of_char (CHR 0x3E) = (62::nat)"
  "of_char (CHR 0x3F) = (63::nat)"
  "of_char (CHR 0x40) = (64::nat)"
  "of_char (CHR 0x41) = (65::nat)"
  "of_char (CHR 0x42) = (66::nat)"
  "of_char (CHR 0x43) = (67::nat)"
  "of_char (CHR 0x44) = (68::nat)"
  "of_char (CHR 0x45) = (69::nat)"
  "of_char (CHR 0x46) = (70::nat)"
  "of_char (CHR 0x47) = (71::nat)"
  "of_char (CHR 0x48) = (72::nat)"
  "of_char (CHR 0x49) = (73::nat)"
  "of_char (CHR 0x4A) = (74::nat)"
  "of_char (CHR 0x4B) = (75::nat)"
  "of_char (CHR 0x4C) = (76::nat)"
  "of_char (CHR 0x4D) = (77::nat)"
  "of_char (CHR 0x4E) = (78::nat)"
  "of_char (CHR 0x4F) = (79::nat)"
  "of_char (CHR 0x50) = (80::nat)"
  "of_char (CHR 0x51) = (81::nat)"
  "of_char (CHR 0x52) = (82::nat)"
  "of_char (CHR 0x53) = (83::nat)"
  "of_char (CHR 0x54) = (84::nat)"
  "of_char (CHR 0x55) = (85::nat)"
  "of_char (CHR 0x56) = (86::nat)"
  "of_char (CHR 0x57) = (87::nat)"
  "of_char (CHR 0x58) = (88::nat)"
  "of_char (CHR 0x59) = (89::nat)"
  "of_char (CHR 0x5A) = (90::nat)"
  "of_char (CHR 0x5B) = (91::nat)"
  "of_char (CHR 0x5C) = (92::nat)"
  "of_char (CHR 0x5D) = (93::nat)"
  "of_char (CHR 0x5E) = (94::nat)"
  "of_char (CHR 0x5F) = (95::nat)"
  "of_char (CHR 0x60) = (96::nat)"
  "of_char (CHR 0x61) = (97::nat)"
  "of_char (CHR 0x62) = (98::nat)"
  "of_char (CHR 0x63) = (99::nat)"
  "of_char (CHR 0x64) = (100::nat)"
  "of_char (CHR 0x65) = (101::nat)"
  "of_char (CHR 0x66) = (102::nat)"
  "of_char (CHR 0x67) = (103::nat)"
  "of_char (CHR 0x68) = (104::nat)"
  "of_char (CHR 0x69) = (105::nat)"
  "of_char (CHR 0x6A) = (106::nat)"
  "of_char (CHR 0x6B) = (107::nat)"
  "of_char (CHR 0x6C) = (108::nat)"
  "of_char (CHR 0x6D) = (109::nat)"
  "of_char (CHR 0x6E) = (110::nat)"
  "of_char (CHR 0x6F) = (111::nat)"
  "of_char (CHR 0x70) = (112::nat)"
  "of_char (CHR 0x71) = (113::nat)"
  "of_char (CHR 0x72) = (114::nat)"
  "of_char (CHR 0x73) = (115::nat)"
  "of_char (CHR 0x74) = (116::nat)"
  "of_char (CHR 0x75) = (117::nat)"
  "of_char (CHR 0x76) = (118::nat)"
  "of_char (CHR 0x77) = (119::nat)"
  "of_char (CHR 0x78) = (120::nat)"
  "of_char (CHR 0x79) = (121::nat)"
  "of_char (CHR 0x7A) = (122::nat)"
  "of_char (CHR 0x7B) = (123::nat)"
  "of_char (CHR 0x7C) = (124::nat)"
  "of_char (CHR 0x7D) = (125::nat)"
  "of_char (CHR 0x7E) = (126::nat)"
  by simp_all


lemma isWs_ev:
  "isWs c =
    (if c < 33 then (if c < 14 then 9 \<le> c else c = 32)
     else if c < 160 then False
     else
   (c = 160 \<or> c = 5760 \<or> (8192 \<le> c \<and> c \<le> 8202) \<or> c = 8232 \<or> c = 8233 \<or> c = 8239
     \<or> c = 8287 \<or> c = 12288 \<or> c = 65279))"
  unfolding isWs_def by auto

lemma isWordChar_ev:
  "isWordChar c =
    (if c < 48 then False else if c \<le> 57 then True else if c < 65 then False
     else if c \<le> 90 then True else if c < 97 then c = 95 else c \<le> 122)"
  unfolding isWordChar_def by auto

lemma canon_ev: "canon c = (if c < 97 then c else if c \<le> 122 then c - 32 else c)"
  unfolding canon_def by auto

lemma length_Cons_Suc: "length (x # xs) = Suc (length xs)" by simp

definition litK :: "bool \<Rightarrow> jstring \<Rightarrow> jstring \<Rightarrow> bool \<Rightarrow> jstring option" where
  "litK ci ps cs b = (if b then lit ci ps cs else None)"

lemma lit_ev:
  "lit ci [] s = Some s"
  "lit ci (p # ps) [] = None"
  "lit False (p # ps) (c # cs) = litK False ps cs (p = c)"
  "lit True (p # ps) (c # cs) = litK True ps cs (canon p = canon c)"
  "litK ci ps cs True = lit ci ps cs"
  "litK ci ps cs False = None"
  by (simp_all add: litK_def)

definition dwK :: "nat \<Rightarrow> jstring \<Rightarrow> bool \<Rightarrow> jstring" where
  "dwK c cs b = (if b then dropWhile isWs cs else c # cs)"

lemma dropWs_ev:
  "dropWhile isWs [] = []"
  "dropWhile isWs (c # cs) = dwK c cs (isWs c)"
  "dwK c cs True = dropWhile isWs cs"
  "dwK c cs False = c # cs"
  by (simp_all add: dwK_def)

definition agK :: "jstring \<Rightarrow> bool \<Rightarrow> jstring option" where
  "agK cs b = (if b then Some cs else afterGt cs)"

lemma afterGt_ev:
  "afterGt [] = None"
  "afterGt (c # cs) = agK cs (c = 62)"
  "agK cs True = Some cs"
  "agK cs False = afterGt cs"
  by (simp_all add: agK_def)

definition fmK :: "(jstring \<Rightarrow> 'a option) \<Rightarrow> jstring \<Rightarrow> 'a option \<Rightarrow> 'a option" where
  "fmK m cs r = (case r of Some x \<Rightarrow> Some x | None \<Rightarrow> firstMatch m cs)"

lemma firstMatch_ev:
  "firstMatch m [] = m []"
  "firstMatch m (c # cs) = fmK m cs (m (c # cs))"
  "fmK m cs None = firstMatch m cs"
  "fmK m cs (Some x) = Some x"
  by (simp_all add: fmK_def)

definition fbCons :: "nat \<Rightarrow> (jstring \<times> 'a) option \<Rightarrow> (jstring \<times> 'a) option" where
  "fbCons c r = (case r of None \<Rightarrow> None | Some (b, x) \<Rightarrow> Some (c # b, x))"

definition fbK :: "(jstring \<Rightarrow> 'a option) \<Rightarrow> nat \<Rightarrow> jstring \<Rightarrow> 'a option \<Rightarrow> (jstring \<times> 'a) option" where
  "fbK m c cs r = (case r of Some x \<Rightarrow> Some ([], x) | None \<Rightarrow> fbCons c (findBy m cs))"

definition fbNil :: "'a option \<Rightarrow> (jstring \<times> 'a) option" where
  "fbNil r = (case r of Some x \<Rightarrow> Some ([], x) | None \<Rightarrow> None)"

lemma findBy_ev:
  "findBy m [] = fbNil (m [])"
  "findBy m (c # cs) = fbK m c cs (m (c # cs))"
  "fbNil None = None"
  "fbNil (Some x) = Some ([], x)"
  "fbK m c cs (Some x) = Some ([], x)"
  "fbK m c cs None = fbCons c (findBy m cs)"
  "fbCons c None = None"
  "fbCons c (Some (b, x)) = Some (c # b, x)"
  by (simp_all add: fbK_def fbCons_def fbNil_def split: option.splits)

definition tagAtK2 :: "jstring \<Rightarrow> bool \<Rightarrow> jstring option" where
  "tagAtK2 ds b = (if b then None else afterGt ds)"

definition tagAtK :: "jstring \<Rightarrow> bool \<Rightarrow> jstring option" where
  "tagAtK cs b = (if b then (case cs of [] \<Rightarrow> None | d # ds \<Rightarrow> tagAtK2 ds (d = 62)) else None)"

lemma tagAt_ev:
  "tagAt [] = None"
  "tagAt (c # cs) = tagAtK cs (c = 60)"
  "tagAtK cs False = None"
  "tagAtK [] True = None"
  "tagAtK (d # ds) True = tagAtK2 ds (d = 62)"
  "tagAtK2 ds True = None"
  "tagAtK2 ds False = afterGt ds"
  by (simp_all add: tagAt_def tagAtK_def tagAtK2_def split: list.splits)

definition raK2 :: "(jstring \<Rightarrow> jstring option) \<Rightarrow> nat \<Rightarrow> jstring \<Rightarrow> jstring \<Rightarrow> bool \<Rightarrow> jstring" where
  "raK2 m c cs rest b = (if b then removeMatches m rest else c # removeMatches m cs)"

definition raK :: "(jstring \<Rightarrow> jstring option) \<Rightarrow> nat \<Rightarrow> jstring \<Rightarrow> jstring option \<Rightarrow> jstring" where
  "raK m c cs r = (case r of None \<Rightarrow> c # removeMatches m cs
                   | Some rest \<Rightarrow> raK2 m c cs rest (length rest \<le> length cs))"

lemma removeMatches_ev:
  "removeMatches m [] = []"
  "removeMatches m (c # cs) = raK m c cs (m (c # cs))"
  "raK m c cs None = c # removeMatches m cs"
  "raK m c cs (Some rest) = raK2 m c cs rest (length rest \<le> length cs)"
  "raK2 m c cs rest True = removeMatches m rest"
  "raK2 m c cs rest False = c # removeMatches m cs"
  by (simp_all add: raK_def raK2_def split: option.splits)

definition tagBody1 :: "bool \<Rightarrow> jstring \<Rightarrow> jstring \<Rightarrow> (jstring \<times> jstring) option" where
  "tagBody1 ci cls r = Option.bind (afterGt r) (findBy (lit ci cls))"

lemma tagBody_ev:
  "tagBody ci opn cls s = Option.bind (lit ci opn s) (tagBody1 ci cls)"
  "tagBody1 ci cls r = Option.bind (afterGt r) (findBy (lit ci cls))"
  by (simp_all add: tagBody_def tagBody1_def split: option.splits)

fun anyPrefixCI :: "jstring list \<Rightarrow> jstring \<Rightarrow> bool" where
  "anyPrefixCI [] s = False"
| "anyPrefixCI (m # ms) s = (case lit True m s of None \<Rightarrow> anyPrefixCI ms s | Some r \<Rightarrow> True)"

definition apK :: "jstring list \<Rightarrow> jstring \<Rightarrow> jstring option \<Rightarrow> bool" where
  "apK ms s r = (case r of None \<Rightarrow> anyPrefixCI ms s | Some r \<Rightarrow> True)"

lemma anyPrefixCI_ev:
  "anyPrefixCI [] s = False"
  "anyPrefixCI (m # ms) s = apK ms s (lit True m s)"
  "apK ms s None = anyPrefixCI ms s"
  "apK ms s (Some r) = True"
  by (simp_all add: apK_def)

lemma anyOf_startsWithCI: "anyOf (\<lambda>m. startsWithCI m s) marks = anyPrefixCI marks s"
  by (induction marks) (auto simp: startsWithCI_def split: option.splits)

definition ulCons :: "nat \<Rightarrow> jstring \<times> jstring \<Rightarrow> jstring \<times> jstring" where
  "ulCons c gr = (case gr of (g, r) \<Rightarrow> (c # g, r))"

definition ulK :: "jstring list \<Rightarrow> nat \<Rightarrow> jstring \<Rightarrow> bool \<Rightarrow> jstring \<times> jstring" where
  "ulK marks c cs b = (if b then ([], c # cs) else ulCons c (untilLookahead marks cs))"

lemma untilLookahead_ev:
  "untilLookahead marks [] = ([], [])"
  "untilLookahead marks (c # cs) = ulK marks c cs (anyPrefixCI marks (c # cs))"
  "ulK marks c cs True = ([], c # cs)"
  "ulK marks c cs False = ulCons c (untilLookahead marks cs)"
  "ulCons c (g, r) = (c # g, r)"
  by (simp_all add: ulK_def ulCons_def anyOf_startsWithCI)

definition h2K2 :: "jstring \<Rightarrow> jstring \<times> jstring \<Rightarrow> (jstring \<times> jstring \<times> jstring) option" where
  "h2K2 g1 gr = (case gr of (g2, rest) \<Rightarrow> Some (g1, g2, rest))"

definition h2K :: "jstring list \<Rightarrow> jstring \<times> jstring \<Rightarrow> (jstring \<times> jstring \<times> jstring) option" where
  "h2K marks gr = (case gr of (g1, r) \<Rightarrow> h2K2 g1 (untilLookahead marks r))"

lemma h2At_ev:
  "h2At opn cls marks s = Option.bind (tagBody True opn cls s) (h2K marks)"
  "h2K marks (g1, r) = h2K2 g1 (untilLookahead marks r)"
  "h2K2 g1 (g2, rest) = Some (g1, g2, rest)"
  by (simp_all add: h2At_def h2K_def h2K2_def split: option.splits prod.splits)

definition elK :: "h2section list \<Rightarrow> (jstring \<times> jstring \<times> jstring) option \<Rightarrow> h2section list" where
  "elK sections r = (case r of None \<Rightarrow> sections
     | Some (g1, content, rest) \<Rightarrow> extractLoop rest (loopBody g1 content sections))"

lemma extractLoop_ev:
  "extractLoop s sections = elK sections (firstMatch (h2At (js ''<h2'') (js ''</h2>'') sectionEnds) s)"
  "elK sections None = sections"
  "elK sections (Some (g1, content, rest)) = extractLoop rest (loopBody g1 content sections)"
  by (simp_all add: elK_def extractLoop.simps [of s sections])

definition fstOf :: "('a \<times> 'b) option \<Rightarrow> 'a option" where
  "fstOf r = (case r of None \<Rightarrow> None | Some (g, rest) \<Rightarrow> Some g)"

definition sndOf :: "('a \<times> 'b) option \<Rightarrow> 'b option" where
  "sndOf r = (case r of None \<Rightarrow> None | Some (g, rest) \<Rightarrow> Some rest)"

lemma fstOf_ev:
  "fstOf None = None" "fstOf (Some (g, rest)) = Some g"
  "sndOf None = None" "sndOf (Some (g, rest)) = Some rest"
  by (simp_all add: fstOf_def sndOf_def)

lemma firstParagraph_ev:
  "firstParagraph content = fstOf (firstMatch (tagBody False (js ''<p'') (js ''</p>'')) content)"
  by (simp add: firstParagraph_def fstOf_def)

lemma articleMatch_ev:
  "articleMatch html = fstOf (firstMatch (tagBody False (js ''<article'') (js ''</article>'')) html)"
  by (simp add: articleMatch_def fstOf_def)

definition blockK :: "jstring \<Rightarrow> jstring \<Rightarrow> jstring option" where
  "blockK cls r = sndOf (findBy (lit False cls) r)"

lemma blockAt_ev:
  "blockAt opn cls s = Option.bind (wsLit opn s) (blockK cls)"
  "blockK cls r = sndOf (findBy (lit False cls) r)"
  "litWsLit a b s = Option.bind (lit False a s) (wsLit b)"
  by (simp_all add: blockAt_def blockK_def sndOf_def litWsLit_def split: option.splits)

definition fsK5 :: "nat \<Rightarrow> jstring \<Rightarrow> bool \<Rightarrow> jstring option" where
  "fsK5 c r4 b = (if b then Some r4 else Some (c # r4))"

definition fsK4 :: "jstring \<Rightarrow> jstring option" where
  "fsK4 r3 = Some (case r3 of [] \<Rightarrow> [] | c # r4 \<Rightarrow> if c = 10 then r4 else c # r4)"

definition fsK3 :: "jstring \<Rightarrow> jstring \<Rightarrow> jstring \<Rightarrow> jstring option" where
  "fsK3 e f r2 = Option.bind (firstMatch (litWsLit e f) r2) fsK4"

definition fsK2 :: "jstring \<Rightarrow> jstring \<Rightarrow> jstring \<Rightarrow> jstring \<Rightarrow> jstring \<Rightarrow> jstring option" where
  "fsK2 c d e f r1 = Option.bind (firstMatch (litWsLit c d) r1) (fsK3 e f)"

definition fsK1 :: "jstring \<Rightarrow> jstring \<Rightarrow> jstring \<Rightarrow> jstring \<Rightarrow> jstring \<Rightarrow> jstring \<Rightarrow> jstring option" where
  "fsK1 b c d e f r = Option.bind (wsLit b r) (fsK2 c d e f)"

lemma faqSchemaAt_ev:
  "faqSchemaAt a b c d e f s = Option.bind (wsLit a s) (fsK1 b c d e f)"
  "fsK1 b c d e f r = Option.bind (wsLit b r) (fsK2 c d e f)"
  "fsK2 c d e f r1 = Option.bind (firstMatch (litWsLit c d) r1) (fsK3 e f)"
  "fsK3 e f r2 = Option.bind (firstMatch (litWsLit e f) r2) fsK4"
  "fsK4 [] = Some []"
  "fsK4 (x # r4) = fsK5 x r4 (x = 10)"
  "fsK5 x r4 True = Some r4"
  "fsK5 x r4 False = Some (x # r4)"
  by (simp_all add: faqSchemaAt_def fsK1_def fsK2_def fsK3_def fsK4_def fsK5_def split: option.splits)

lemma stripExistingFaq_ev:
  \<open>stripExistingFaq html =
     removeMatches
       (faqSchemaAt (js ''<script type="application/ld+json">'') (js ''{'')
          (js ''"@type":'') (js ''"FAQPage"'') (js ''}'') (js ''</script>''))
       (removeMatches (blockAt (js ''<section class="faq-section">'') (js ''</section>'')) html)\<close>
  by (simp add: stripExistingFaq_def)

definition gsK2 :: "jstring \<Rightarrow> jstring \<Rightarrow> jstring \<Rightarrow> nat \<Rightarrow> jstring \<Rightarrow> jstring" where
  "gsK2 m b a d r =
     (if d = 36 then 36 # getSubstitution m b a r
      else if d = 38 then m @ getSubstitution m b a r
      else if d = 96 then b @ getSubstitution m b a r
      else if d = 39 then a @ getSubstitution m b a r
      else 36 # getSubstitution m b a (d # r))"

definition gsK :: "jstring \<Rightarrow> jstring \<Rightarrow> jstring \<Rightarrow> nat \<Rightarrow> nat \<Rightarrow> jstring \<Rightarrow> bool \<Rightarrow> jstring" where
  "gsK m b a c d r t = (if t then gsK2 m b a d r else c # getSubstitution m b a (d # r))"

lemma getSubstitution_ev:
  "getSubstitution m b a [] = []"
  "getSubstitution m b a [c] = [c]"
  "getSubstitution m b a (c # d # r) = gsK m b a c d r (c = 36)"
  "gsK m b a c d r False = c # getSubstitution m b a (d # r)"
  "gsK m b a c d r True = gsK2 m b a d r"
  by (simp_all add: gsK_def gsK2_def)

definition rfK :: "jstring \<Rightarrow> jstring \<Rightarrow> jstring \<Rightarrow> (jstring \<times> jstring) option \<Rightarrow> jstring" where
  "rfK pat repl s r = (case r of None \<Rightarrow> s
     | Some (before, after) \<Rightarrow> before @ getSubstitution pat before after repl @ after)"

lemma replaceFirst_ev:
  "replaceFirst pat repl s = rfK pat repl s (findBy (lit False pat) s)"
  "rfK pat repl s None = s"
  "rfK pat repl s (Some (before, after)) = before @ getSubstitution pat before after repl @ after"
  by (simp_all add: replaceFirst_def rfK_def)

lemma insertFaq_ev:
  \<open>insertFaq html qaPairs category slug =
     replaceFirst (js ''</head>'')
       ((js ''  <script type="application/ld+json">'' @ nl @ js ''  '' @
         buildFaqSchema qaPairs (js ''https://creatinepedia.com/'' @ category @ js ''/'' @ slug) @
         nl @ js ''  </script>'' @ nl) @ js ''</head>'')
       (replaceFirst (js ''</article>'') (buildFaqHtml qaPairs @ nl @ js ''      </article>'') html)\<close>
  by (simp add: insertFaq_def Let_def)

definition ijK4 :: "(jstring \<Rightarrow> jstring) \<Rightarrow> jstring \<Rightarrow> jstring \<Rightarrow> jstring \<Rightarrow> h2section list \<Rightarrow> bool
    \<Rightarrow> jstring \<times> bool" where
  "ijK4 lower category slug html sections b =
     (if b then (html, False)
      else (insertFaq html (toQaPairs lower category (take 5 sections)) category slug, True))"

definition ijK3 :: "(jstring \<Rightarrow> jstring) \<Rightarrow> jstring \<Rightarrow> jstring \<Rightarrow> jstring \<Rightarrow> h2section list
    \<Rightarrow> jstring \<times> bool" where
  "ijK3 lower category slug html sections =
     ijK4 lower category slug html sections (length sections < 3)"

definition ijK2 :: "(jstring \<Rightarrow> jstring) \<Rightarrow> jstring \<Rightarrow> jstring \<Rightarrow> jstring \<Rightarrow> jstring option
    \<Rightarrow> jstring \<times> bool" where
  "ijK2 lower category slug html r =
     (case r of None \<Rightarrow> (html, False)
      | Some articleContent \<Rightarrow> ijK3 lower category slug html (extractH2Sections articleContent))"

definition ijK :: "(jstring \<Rightarrow> jstring) \<Rightarrow> jstring \<Rightarrow> jstring \<Rightarrow> jstring \<Rightarrow> jstring \<times> bool" where
  "ijK lower category slug html = ijK2 lower category slug html (articleMatch html)"

lemma injectFaq_ev:
  "injectFaq lower html0 category slug = ijK lower category slug (stripExistingFaq html0)"
  "ijK lower category slug html = ijK2 lower category slug html (articleMatch html)"
  "ijK2 lower category slug html None = (html, False)"
  "ijK2 lower category slug html (Some articleContent) =
     ijK3 lower category slug html (extractH2Sections articleContent)"
  "ijK3 lower category slug html sections =
     ijK4 lower category slug html sections (length sections < 3)"
  "ijK4 lower category slug html sections True = (html, False)"
  "ijK4 lower category slug html sections False =
     (insertFaq html (toQaPairs lower category (take 5 sections)) category slug, True)"
  by (simp_all add: injectFaq_def ijK_def ijK2_def ijK3_def ijK4_def Let_def split: option.splits)

lemma take_ev:
  "take (numeral k) (x # xs) = x # take (pred_numeral k) xs"
  "take 0 xs = []"
  "take n [] = []"
  by (simp_all add: numeral_eq_Suc)

lemma toQaPairs_ev:
  "toQaPairs lower category [] = []"
  "toQaPairs lower category (s # ss) =
     QA (headingToQuestion lower (sHeading s) category) (sAnswer s) # toQaPairs lower category ss"
  by (simp_all add: toQaPairs_def)

definition entityLine :: "qaPair \<Rightarrow> jstring" where
  "entityLine qa = js ''    '' @ questionJson qa"

lemma mainEntityJson_ev:
  "mainEntityJson [] = js ''[]''"
  "mainEntityJson (q # qs) =
     js ''['' @ nl @ joinWith (js '','' @ nl) (map entityLine (q # qs)) @ nl @ js ''  ]''"
  by (simp_all add: mainEntityJson_def entityLine_def [abs_def])

lemmas ev_scan = take_ev toQaPairs_ev mainEntityJson_ev entityLine_def lit_ev dropWs_ev afterGt_ev
  firstMatch_ev findBy_ev tagAt_ev removeMatches_ev tagBody_ev
  anyPrefixCI_ev untilLookahead_ev h2At_ev extractLoop_ev fstOf_ev firstParagraph_ev articleMatch_ev
  blockAt_ev faqSchemaAt_ev stripExistingFaq_ev getSubstitution_ev gsK2_def replaceFirst_ev insertFaq_ev
  injectFaq_ev wsLit_def Option.bind.simps

lemmas ev_funs = anywhere.simps anyOf.simps stripSubtitle.simps quoteBody.simps joinWith.simps

lemmas ev_defs = js_def isWs_ev isLineTerminator_def isWordChar_ev canon_ev startsWith_def
  startsWithCI_def
  containsStr_def containsCI_def trimStart_def trimEnd_def trim_def endsWithChar_def asciiLower_def
  atBoundary_def wordAt_def vsAt_def hasWord_def hasAny_def wsRun_def articleThen_def stripArticle_def
  isSubtitleMark_def subtitleAt_def questionWords_def questionWordAt_def startsLikeQuestion_def
  isComparison_def actionWords_def pluralWords_def dosingExclusion_def dosingWords_def safetyWords_def
  isRelationship_def headingToQuestion_def stripTags_def sectionEnds_def
  isReferences_def isFaqHeading_def loopBody_def extractH2Sections_def nl_def
  faqItem_def buildFaqHtml_def hexDigit_def unicodeEscape_def isLeadSurrogate_def isTrailSurrogate_def
  quoteUnit_def quoteJSONString_def questionJson_def buildFaqSchema_def
  endsWith_def isArticleFile_def

lemmas ev_data = of_char_ascii list.case option.case prod.case
  list.map append_Nil append_Cons concat.simps rev.simps filter.simps
  list.size(3) length_Cons_Suc last.simps
  h2section.sel qaPair.sel h2section.inject qaPair.inject
  option.distinct option.inject list.distinct list.inject prod.inject
  if_True if_False simp_thms Let_def fst_conv snd_conv

lemmas ev_num = rel_simps arith_simps pred_numeral_simps less_numeral_Suc less_Suc_numeral
  le_numeral_Suc
  le_Suc_numeral Suc_less_eq Suc_le_mono zero_less_Suc less_nat_zero_code le0 not_less_eq_eq
  numeral_plus_numeral diff_nat_numeral diff_numeral_simps nat_numeral nat_neg_numeral nat_0
  nat.distinct nat.inject
  le_zero_eq

lemmas ev = ev_scan ev_funs ev_defs ev_data ev_num
lemmas ev_cong = if_weak_cong let_weak_cong option.case_cong_weak list.case_cong_weak
  prod.case_cong_weak

section \<open>The heading classifier: claims\<close>

text \<open>
  C9. The classifier depends only on the heading text: two calls with the same heading
  return the same question, whatever category is passed to either.
\<close>

theorem classifier_ignores_category:
  "headingToQuestion lower heading category1 = headingToQuestion lower heading category2"
  by (simp add: headingToQuestion_def)

text \<open>
  C2, as stated, fails. The heading \<open>Dosing and Timing Strategies\<close> holds the word
  \<open>strategies\<close>, so the plural-noun rule, which stands before the two rules about
  \<open>and\<close> and dosing, answers it; and a heading with \<open>and\<close> whose dosing word is one of
  \<open>timing\<close>, \<open>loading\<close>, \<open>cycle\<close>, \<open>schedul\<close> is answered by the relationship rule,
  whose exclusion names \<open>dosing\<close>, \<open>dose\<close> and \<open>protocol\<close> only.
\<close>

theorem dosing_and_timing_counterexample:
  "headingToQuestion asciiLower (js ''Dosing and Timing Strategies'') (js ''dosing'')
     \<noteq> js ''What is the recommended dosing and timing strategies?''
   \<and> hasWord [js ''and''] (trim (asciiLower (js ''Loading and Maintenance'')))
   \<and> hasAny dosingWords (trim (asciiLower (js ''Loading and Maintenance'')))
   \<and> headingToQuestion asciiLower (js ''Loading and Maintenance'') (js ''dosing'')
     = js ''What is the relationship between loading and maintenance?''"
  by (simp only: ev cong: ev_cong)

text \<open>
  C2, amended. \<open>Dosing and Timing Strategies\<close> becomes
  \<open>What are the dosing and timing strategies?\<close> (the plural-noun rule). A heading whose
  lower-cased, trimmed text holds the word \<open>and\<close> and one of \<open>dosing\<close>, \<open>dose\<close>,
  \<open>protocol\<close>, and that none of the earlier rules matches (final question mark, question
  word, comparison, action word, plural noun), becomes
  \<open>What is the recommended {cleaned}?\<close>, not the relationship form.
\<close>

theorem dosing_rule_after_plural_rule:
  "headingToQuestion asciiLower (js ''Dosing and Timing Strategies'') category
     = js ''What are the dosing and timing strategies?''
   \<and> (h = trim (lower heading) \<and> \<not> endsWithChar h 63 \<and> \<not> startsLikeQuestion h
        \<and> \<not> isComparison h \<and> \<not> hasWord actionWords h \<and> \<not> hasWord pluralWords h
        \<and> hasWord [js ''and''] h \<and> hasAny dosingExclusion h
      \<longrightarrow> headingToQuestion lower heading category
          = js ''What is the recommended '' @ lower (stripSubtitle (stripArticle heading)) @ js ''?'')"
proof (intro conjI impI)
  show "headingToQuestion asciiLower (js ''Dosing and Timing Strategies'') category
     = js ''What are the dosing and timing strategies?''"
    by (simp only: ev cong: ev_cong)
next
  assume a: "h = trim (lower heading) \<and> \<not> endsWithChar h 63 \<and> \<not> startsLikeQuestion h
        \<and> \<not> isComparison h \<and> \<not> hasWord actionWords h \<and> \<not> hasWord pluralWords h
        \<and> hasWord [js ''and''] h \<and> hasAny dosingExclusion h"
  define t where "t = trim (lower heading)"
  from a have n: "\<not> endsWithChar t 63" "\<not> startsLikeQuestion t" "\<not> isComparison t"
    "\<not> hasWord actionWords t" "\<not> hasWord pluralWords t"
    and e: "hasAny dosingExclusion t"
    by (auto simp: t_def)
  from e have d: "hasAny dosingWords t"
    by (rule hasAny_mono [OF dosingExclusion_subset])
  from e have r: "\<not> isRelationship t"
    by (simp add: isRelationship_def)
  show "headingToQuestion lower heading category
      = js ''What is the recommended '' @ lower (stripSubtitle (stripArticle heading)) @ js ''?''"
    using n d r unfolding headingToQuestion_def Let_def t_def by simp
qed

theorem dosing_rule_after_plural_rule_witness:
  "\<not> endsWithChar (js ''dosing and timing'') 63
   \<and> \<not> startsLikeQuestion (js ''dosing and timing'')
   \<and> \<not> isComparison (js ''dosing and timing'')
   \<and> \<not> hasWord actionWords (js ''dosing and timing'')
   \<and> \<not> hasWord pluralWords (js ''dosing and timing'')
   \<and> hasWord [js ''and''] (js ''dosing and timing'')
   \<and> hasAny dosingExclusion (js ''dosing and timing'')
   \<and> headingToQuestion asciiLower (js ''Dosing and Timing'') (js ''dosing'')
       = js ''What is the recommended dosing and timing?''"
proof -
  have t: "js ''dosing and timing'' = trim (asciiLower (js ''Dosing and Timing''))"
    by (simp only: ev cong: ev_cong)
  have c: "asciiLower (stripSubtitle (stripArticle (js ''Dosing and Timing'')))
      = js ''dosing and timing''"
    by (simp only: ev cong: ev_cong)
  have hyps: "\<not> endsWithChar (js ''dosing and timing'') 63
     \<and> \<not> startsLikeQuestion (js ''dosing and timing'')
     \<and> \<not> isComparison (js ''dosing and timing'')
     \<and> \<not> hasWord actionWords (js ''dosing and timing'')
     \<and> \<not> hasWord pluralWords (js ''dosing and timing'')
     \<and> hasWord [js ''and''] (js ''dosing and timing'')
     \<and> hasAny dosingExclusion (js ''dosing and timing'')"
    by (simp only: ev cong: ev_cong)
  have "headingToQuestion asciiLower (js ''Dosing and Timing'') (js ''dosing'')
      = js ''What is the recommended '' @ js ''dosing and timing'' @ js ''?''"
    using dosing_rule_after_plural_rule
      [of "js ''dosing''" "js ''dosing and timing''" asciiLower "js ''Dosing and Timing''"]
      t hyps c by simp
  moreover have "js ''What is the recommended '' @ js ''dosing and timing'' @ js ''?''
      = js ''What is the recommended dosing and timing?''"
    by (simp add: js_def)
  ultimately show ?thesis using hyps by simp
qed

text \<open>
  C3, as stated, fails. The test for a leading question word reads the lower-cased,
  trimmed heading as it came in, not the cleaned form: \<open>The How of Creatine\<close> has the
  cleaned form \<open>How of Creatine\<close>, which begins with \<open>how\<close>, and yet falls through to
  the default rule.
\<close>

theorem cleaned_question_word_counterexample:
  "stripSubtitle (stripArticle (js ''The How of Creatine'')) = js ''How of Creatine''
   \<and> startsLikeQuestion (asciiLower (js ''How of Creatine''))
   \<and> \<not> endsWithChar (js ''The How of Creatine'') 63
   \<and> headingToQuestion asciiLower (js ''The How of Creatine'') (js ''science'')
       = js ''What is the how of creatine?''
   \<and> headingToQuestion asciiLower (js ''The How of Creatine'') (js ''science'')
       \<noteq> js ''The How of Creatine'' @ js ''?''"
  by (simp only: ev cong: ev_cong)

text \<open>
  C3, amended. For every heading whose lower-cased, trimmed text does not end with
  \<open>?\<close>: if that text (the original heading, not the cleaned form) begins with one of
  the words how, what, why, when, where, which, does, is, can, should, do, followed by a
  white-space character, the classifier returns the original heading with \<open>?\<close>
  appended.
\<close>

theorem question_word_on_original_heading:
  assumes "\<not> endsWithChar (trim (lower heading)) 63"
    and "w \<in> set questionWords"
    and "lit True w (trim (lower heading)) = Some (c # r)"
    and "isWs c"
  shows "headingToQuestion lower heading category = heading @ js ''?''"
proof -
  have "questionWordAt (trim (lower heading)) w"
    using assms(3,4) by (simp add: questionWordAt_def)
  with assms(2) have "startsLikeQuestion (trim (lower heading))"
    by (auto simp: startsLikeQuestion_def anyOf_iff)
  with assms(1) show ?thesis
    by (simp add: headingToQuestion_def Let_def)
qed

theorem question_word_on_original_heading_witness:
  "\<not> endsWithChar (trim (asciiLower (js ''How Creatine Works''))) 63
   \<and> js ''how'' \<in> set questionWords
   \<and> lit True (js ''how'') (trim (asciiLower (js ''How Creatine Works'')))
       = Some (32 # js ''creatine works'')
   \<and> isWs 32
   \<and> headingToQuestion asciiLower (js ''How Creatine Works'') (js ''science'')
       = js ''How Creatine Works'' @ js ''?''"
proof -
  have h1: "\<not> endsWithChar (trim (asciiLower (js ''How Creatine Works''))) 63"
    by (simp only: ev cong: ev_cong)
  have h2: "js ''how'' \<in> set questionWords"
    by (simp add: questionWords_def)
  have h3: "lit True (js ''how'') (trim (asciiLower (js ''How Creatine Works'')))
      = Some (32 # js ''creatine works'')"
    by (simp only: ev cong: ev_cong)
  have h4: "isWs 32"
    by (simp add: isWs_def)
  from question_word_on_original_heading
    [where lower = asciiLower and heading = "js ''How Creatine Works''", OF h1 h2 h3 h4]
    h1 h2 h3 h4
  show ?thesis by blast
qed

text \<open>
  C4, as stated, fails. The first rule tests the lower-cased, trimmed heading for a final
  \<open>?\<close> and returns the heading as it came in: a heading with white space after its
  question mark comes back unchanged, and its last character is not \<open>?\<close>.
\<close>

theorem classifier_totality_counterexample:
  "js ''Is it safe? '' \<noteq> []
   \<and> headingToQuestion asciiLower (js ''Is it safe? '') (js ''safety'') = js ''Is it safe? ''
   \<and> \<not> endsWithChar (headingToQuestion asciiLower (js ''Is it safe? '') (js ''safety'')) 63"
  by (simp only: ev cong: ev_cong)

text \<open>
  C4, amended. For every heading, empty or not, whose own last character is \<open>?\<close>
  whenever the last character of its lower-cased, trimmed text is, the classifier returns
  a non-empty string whose last character is \<open>?\<close>, whatever the case mapping.
  With the case mapping of the ASCII letters this covers every heading that is empty or
  does not end in white space, as the extractor's trimmed headings do not.
\<close>

theorem classifier_total_on_trimmed:
  "((endsWithChar (trim (lower heading)) 63 \<longrightarrow> endsWithChar heading 63)
      \<longrightarrow> headingToQuestion lower heading category \<noteq> []
        \<and> endsWithChar (headingToQuestion lower heading category) 63)
   \<and> (heading = [] \<or> \<not> isWs (last heading)
      \<longrightarrow> headingToQuestion asciiLower heading category \<noteq> []
        \<and> endsWithChar (headingToQuestion asciiLower heading category) 63)"
proof -
  have general: "headingToQuestion l heading category \<noteq> []
      \<and> endsWithChar (headingToQuestion l heading category) 63"
    if "endsWithChar (trim (l heading)) 63 \<longrightarrow> endsWithChar heading 63" for l
  proof (cases "endsWithChar (trim (l heading)) 63")
    case True
    with that have "endsWithChar heading 63" by simp
    with True show ?thesis
      by (auto simp: headingToQuestion_def Let_def endsWithChar_def)
  next
    case False
    then show ?thesis
      by (simp add: headingToQuestion_def Let_def endsWithChar_def js_def)
  qed
  have "endsWithChar (trim (asciiLower heading)) 63 \<longrightarrow> endsWithChar heading 63"
    if "heading = [] \<or> \<not> isWs (last heading)"
    using asciiLower_trimmed_question [OF that] by blast
  with general [of lower] general [of asciiLower] show ?thesis by blast
qed

theorem classifier_total_on_trimmed_witness:
  "\<not> endsWithChar (trim (asciiLower (js ''Kidney Function''))) 63
   \<and> \<not> isWs (last (js ''Kidney Function''))
   \<and> headingToQuestion asciiLower (js ''Kidney Function'') (js ''safety'')
       = js ''Is kidney function safe?''
   \<and> headingToQuestion asciiLower (js ''Kidney Function'') (js ''safety'') \<noteq> []
   \<and> endsWithChar (headingToQuestion asciiLower (js ''Kidney Function'') (js ''safety'')) 63"
proof -
  have n: "\<not> endsWithChar (trim (asciiLower (js ''Kidney Function''))) 63"
    by (simp only: ev cong: ev_cong)
  have w: "\<not> isWs (last (js ''Kidney Function''))"
    by (simp add: js_def isWs_def)
  have v: "headingToQuestion asciiLower (js ''Kidney Function'') (js ''safety'')
      = js ''Is kidney function safe?''"
    by (simp only: ev cong: ev_cong)
  from classifier_total_on_trimmed
    [where lower = asciiLower and heading = "js ''Kidney Function''"
       and category = "js ''safety''"] n w v
  show ?thesis by blast
qed

section \<open>The extractor: claims\<close>



definition dropWords :: "jstring list" where
  "dropWords = map js [''references'', ''bibliography'', ''sources'', ''citations'',
     ''frequently asked'', ''faq'']"

lemma dropWords_iff:
  "(\<exists>w\<in>set dropWords. containsCI w h) \<longleftrightarrow> isReferences h \<or> isFaqHeading h"
  by (simp add: dropWords_def isReferences_def isFaqHeading_def hasAny_def)

text \<open>
  C10. The drop tests are case-insensitive substring tests. A heading whose tag-stripped
  text contains \<open>references\<close>, \<open>bibliography\<close>, \<open>sources\<close>, \<open>citations\<close>,
  \<open>frequently asked\<close> or \<open>faq\<close> anywhere, also inside a longer word as in
  \<open>Resources\<close>, pushes no section whatever its content is; and no section that
  \<open>extractH2Sections\<close> returns has such a heading.
\<close>

theorem drop_tests_are_substring_tests:
  "(w \<in> set dropWords \<and> containsCI w (stripTags g1) \<longrightarrow> loopBody g1 content sections = sections)
   \<and> (\<forall>s\<in>set (extractH2Sections html). \<forall>w\<in>set dropWords. \<not> containsCI w (sHeading s))"
proof (intro conjI impI ballI)
  assume "w \<in> set dropWords \<and> containsCI w (stripTags g1)"
  then have "isReferences (stripTags g1) \<or> isFaqHeading (stripTags g1)"
    using dropWords_iff [of "stripTags g1"] by blast
  then show "loopBody g1 content sections = sections"
    by (rule loopBody_dropped)
next
  fix s w
  assume s: "s \<in> set (extractH2Sections html)" and w: "w \<in> set dropWords"
  have "\<forall>x\<in>set (extractLoop html []). \<not> isReferences (sHeading x) \<and> \<not> isFaqHeading (sHeading x)"
    by (rule extractLoop_invariant) simp
  with s have "\<not> (isReferences (sHeading s) \<or> isFaqHeading (sHeading s))"
    by (simp add: extractH2Sections_def)
  with w show "\<not> containsCI w (sHeading s)"
    using dropWords_iff [of "sHeading s"] by blast
qed

theorem drop_tests_are_substring_tests_witness:
  "js ''sources'' \<in> set dropWords
   \<and> containsCI (js ''sources'') (stripTags (js ''Resources''))
   \<and> loopBody (js ''Resources'')
         (js ''<p>Where to read more about creatine and training.</p>'') [] = []
   \<and> extractH2Sections
         (js ''<h2>Resources</h2><p>Where to read more about creatine and training.</p>'') = []"
proof -
  have m: "js ''sources'' \<in> set dropWords"
    by (simp add: dropWords_def)
  have c: "containsCI (js ''sources'') (stripTags (js ''Resources''))"
    by (simp only: ev cong: ev_cong)
  have e: "extractH2Sections
         (js ''<h2>Resources</h2><p>Where to read more about creatine and training.</p>'') = []"
    by (simp only: ev cong: ev_cong)
  from drop_tests_are_substring_tests
    [where w = "js ''sources''" and ?g1.0 = "js ''Resources''"
       and content = "js ''<p>Where to read more about creatine and training.</p>''"
       and sections = "[]", THEN conjunct1, rule_format] m c e
  show ?thesis by blast
qed

section \<open>The rewrite and the batch run: claims\<close>

text \<open>A page as the retemplating step leaves it, with an article schema in its head and
  three sections; the same page after one run of the script and after two; and a page
  with two sections.\<close>

definition page :: jstring where
  \<open>page =
     js ''<html><head><script type="application/ld+json">{"@type":"Article"}</script><title>T</title></head><body><article><h2>Energy</h2><p>Creatine fuels short hard efforts.</p><h2>Amount</h2><p>Three to five grams a day is enough.</p><h2>Tolerance</h2><p>Healthy adults tolerate it well long term.</p></article></body></html>''\<close>

definition pageAfterFirstRun :: jstring where
  \<open>pageAfterFirstRun =
     js ''<html><head><script type="application/ld+json">{"@type":"Article"}</script><title>T</title>  <script type="application/ld+json">''
     @ nl @ js ''  {'' @ nl @ js ''  "@context": "https://schema.org",'' @ nl
     @ js ''  "@type": "FAQPage",'' @ nl @ js ''  "mainEntity": ['' @ nl @ js ''    {''
     @ nl @ js ''      "@type": "Question",'' @ nl
     @ js ''      "name": "What is the energy?",'' @ nl @ js ''      "acceptedAnswer": {''
     @ nl @ js ''        "@type": "Answer",'' @ nl
     @ js ''        "text": "Creatine fuels short hard efforts."'' @ nl @ js ''      }''
     @ nl @ js ''    },'' @ nl @ js ''    {'' @ nl @ js ''      "@type": "Question",'' @ nl
     @ js ''      "name": "What is the amount?",'' @ nl @ js ''      "acceptedAnswer": {''
     @ nl @ js ''        "@type": "Answer",'' @ nl
     @ js ''        "text": "Three to five grams a day is enough."'' @ nl @ js ''      }''
     @ nl @ js ''    },'' @ nl @ js ''    {'' @ nl @ js ''      "@type": "Question",'' @ nl
     @ js ''      "name": "What is the tolerance?",'' @ nl
     @ js ''      "acceptedAnswer": {'' @ nl @ js ''        "@type": "Answer",'' @ nl
     @ js ''        "text": "Healthy adults tolerate it well long term."'' @ nl
     @ js ''      }'' @ nl @ js ''    }'' @ nl @ js ''  ]'' @ nl @ js ''}'' @ nl
     @ js ''  </script>'' @ nl
     @ js ''</head><body><article><h2>Energy</h2><p>Creatine fuels short hard efforts.</p><h2>Amount</h2><p>Three to five grams a day is enough.</p><h2>Tolerance</h2><p>Healthy adults tolerate it well long term.</p>''
     @ nl @ js ''      <section class="faq-section">'' @ nl
     @ js ''        <h2>Frequently Asked Questions</h2>'' @ nl @ js ''        '' @ nl
     @ js ''        <div class="faq-item">'' @ nl
     @ js ''          <h3>What is the energy?</h3>'' @ nl
     @ js ''          <p>Creatine fuels short hard efforts.</p>'' @ nl
     @ js ''        </div>'' @ nl @ js ''        <div class="faq-item">'' @ nl
     @ js ''          <h3>What is the amount?</h3>'' @ nl
     @ js ''          <p>Three to five grams a day is enough.</p>'' @ nl
     @ js ''        </div>'' @ nl @ js ''        <div class="faq-item">'' @ nl
     @ js ''          <h3>What is the tolerance?</h3>'' @ nl
     @ js ''          <p>Healthy adults tolerate it well long term.</p>'' @ nl
     @ js ''        </div>'' @ nl @ js ''      </section>'' @ nl
     @ js ''      </article></body></html>''\<close>

definition pageAfterSecondRun :: jstring where
  \<open>pageAfterSecondRun =
     js ''<html><head>  <script type="application/ld+json">'' @ nl @ js ''  {'' @ nl
     @ js ''  "@context": "https://schema.org",'' @ nl @ js ''  "@type": "FAQPage",'' @ nl
     @ js ''  "mainEntity": ['' @ nl @ js ''    {'' @ nl
     @ js ''      "@type": "Question",'' @ nl @ js ''      "name": "What is the energy?",''
     @ nl @ js ''      "acceptedAnswer": {'' @ nl @ js ''        "@type": "Answer",'' @ nl
     @ js ''        "text": "Creatine fuels short hard efforts."'' @ nl @ js ''      }''
     @ nl @ js ''    },'' @ nl @ js ''    {'' @ nl @ js ''      "@type": "Question",'' @ nl
     @ js ''      "name": "What is the amount?",'' @ nl @ js ''      "acceptedAnswer": {''
     @ nl @ js ''        "@type": "Answer",'' @ nl
     @ js ''        "text": "Three to five grams a day is enough."'' @ nl @ js ''      }''
     @ nl @ js ''    },'' @ nl @ js ''    {'' @ nl @ js ''      "@type": "Question",'' @ nl
     @ js ''      "name": "What is the tolerance?",'' @ nl
     @ js ''      "acceptedAnswer": {'' @ nl @ js ''        "@type": "Answer",'' @ nl
     @ js ''        "text": "Healthy adults tolerate it well long term."'' @ nl
     @ js ''      }'' @ nl @ js ''    }'' @ nl @ js ''  ]'' @ nl @ js ''}'' @ nl
     @ js ''  </script>'' @ nl
     @ js ''</head><body><article><h2>Energy</h2><p>Creatine fuels short hard efforts.</p><h2>Amount</h2><p>Three to five grams a day is enough.</p><h2>Tolerance</h2><p>Healthy adults tolerate it well long term.</p>''
     @ nl @ js ''      '' @ nl @ js ''      <section class="faq-section">'' @ nl
     @ js ''        <h2>Frequently Asked Questions</h2>'' @ nl @ js ''        '' @ nl
     @ js ''        <div class="faq-item">'' @ nl
     @ js ''          <h3>What is the energy?</h3>'' @ nl
     @ js ''          <p>Creatine fuels short hard efforts.</p>'' @ nl
     @ js ''        </div>'' @ nl @ js ''        <div class="faq-item">'' @ nl
     @ js ''          <h3>What is the amount?</h3>'' @ nl
     @ js ''          <p>Three to five grams a day is enough.</p>'' @ nl
     @ js ''        </div>'' @ nl @ js ''        <div class="faq-item">'' @ nl
     @ js ''          <h3>What is the tolerance?</h3>'' @ nl
     @ js ''          <p>Healthy adults tolerate it well long term.</p>'' @ nl
     @ js ''        </div>'' @ nl @ js ''      </section>'' @ nl
     @ js ''      </article></body></html>''\<close>

definition pageTwo :: jstring where
  \<open>pageTwo =
     js ''<html><head><title>T</title></head><body><article><h2>Energy</h2><p>Creatine fuels short hard efforts.</p><h2>Amount</h2><p>Three to five grams a day is enough.</p></article></body></html>''\<close>

definition articleThree :: jstring where
  \<open>articleThree = js ''<h2>Energy</h2><p>Creatine fuels short hard efforts.</p><h2>Amount</h2><p>Three to five grams a day is enough.</p><h2>Tolerance</h2><p>Healthy adults tolerate it well long term.</p>''\<close>

definition threeSections :: "h2section list" where
  "threeSections =
    [Section (js ''Energy'') (js ''Creatine fuels short hard efforts.''),
     Section (js ''Amount'') (js ''Three to five grams a day is enough.''),
     Section (js ''Tolerance'') (js ''Healthy adults tolerate it well long term.'')]"

definition articleTwo :: jstring where
  \<open>articleTwo = js ''<h2>Energy</h2><p>Creatine fuels short hard efforts.</p><h2>Amount</h2><p>Three to five grams a day is enough.</p>''\<close>

definition twoSections :: "h2section list" where
  "twoSections =
    [Section (js ''Energy'') (js ''Creatine fuels short hard efforts.''),
     Section (js ''Amount'') (js ''Three to five grams a day is enough.'')]"

lemma page_article: "articleMatch (stripExistingFaq page) = Some articleThree"
  by (simp only: ev page_def articleThree_def cong: ev_cong)

lemma articleThree_sections: "extractH2Sections articleThree = threeSections"
  by (simp only: ev articleThree_def threeSections_def cong: ev_cong)

lemma pageTwo_strip: "stripExistingFaq pageTwo = pageTwo"
  by (simp only: ev pageTwo_def cong: ev_cong)

lemma pageTwo_article: "articleMatch pageTwo = Some articleTwo"
  by (simp only: ev pageTwo_def articleTwo_def cong: ev_cong)

lemma articleTwo_sections: "extractH2Sections articleTwo = twoSections"
  by (simp only: ev articleTwo_def twoSections_def cong: ev_cong)

lemma page_qualifies: "qualifies page"
  by (simp add: qualifies_def page_article articleThree_sections threeSections_def)

lemma pageTwo_not_qualifies: "\<not> qualifies pageTwo"
  by (simp add: qualifies_def pageTwo_strip pageTwo_article articleTwo_sections twoSections_def)

text \<open>
  C1 fails on the code, and the code is at fault: the strip step is there to allow a
  second run, and the second run changes the page. On the page above the first run adds
  the FAQ schema and the FAQ section. The second run's schema pattern starts at the first
  structured-data block of the head, the article schema, and its lazy group runs on to
  the FAQ schema: the article schema and the title between them are removed with it.
  The section pattern takes the line break and indentation before the FAQ section, but
  not the ones the first run put after it, so the new section stands one line lower.
\<close>

theorem second_run_changes_page:
  \<open>injectFaq asciiLower page (js ''science'') (js ''energy'') = (pageAfterFirstRun, True)
   \<and> injectFaq asciiLower pageAfterFirstRun (js ''science'') (js ''energy'')
       = (pageAfterSecondRun, True)
   \<and> pageAfterSecondRun \<noteq> pageAfterFirstRun
   \<and> containsStr (js ''{"@type":"Article"}'') pageAfterFirstRun
   \<and> \<not> containsStr (js ''{"@type":"Article"}'') pageAfterSecondRun\<close>
proof (intro conjI)
  show "injectFaq asciiLower page (js ''science'') (js ''energy'') = (pageAfterFirstRun, True)"
    by (simp only: ev page_def pageAfterFirstRun_def cong: ev_cong)
  show "injectFaq asciiLower pageAfterFirstRun (js ''science'') (js ''energy'')
       = (pageAfterSecondRun, True)"
    by (simp only: ev pageAfterFirstRun_def pageAfterSecondRun_def cong: ev_cong)
  show "pageAfterSecondRun \<noteq> pageAfterFirstRun"
    by (simp only: ev pageAfterFirstRun_def pageAfterSecondRun_def cong: ev_cong)
  show \<open>containsStr (js ''{"@type":"Article"}'') pageAfterFirstRun\<close>
    by (simp only: ev pageAfterFirstRun_def cong: ev_cong)
  show \<open>\<not> containsStr (js ''{"@type":"Article"}'') pageAfterSecondRun\<close>
    by (simp only: ev pageAfterSecondRun_def cong: ev_cong)
qed




definition scienceListing :: "jstring list \<Rightarrow> jstring \<Rightarrow> dirEntry option" where
  "scienceListing names = (\<lambda>dir. None)(js ''science'' := Some (Listing names))"

definition twoSectionFile :: "jstring \<times> jstring \<Rightarrow> node" where
  "twoSectionFile =
     (\<lambda>p. Unreadable (js ''ENOENT''))((js ''science'', js ''short.html'') := File pageTwo None)"

text \<open>
  C6. For every page that does not qualify (the article pattern does not match, or fewer
  than 3 sections are extracted) \<open>injectFaq\<close> reports \<open>injected = false\<close>, and the run,
  whether it ends or is cut short, leaves the file with the content and state it had. A
  file whose node differs after the run from before held a page that qualifies.
\<close>

theorem unqualified_page_is_not_written:
  "(\<not> qualifies html \<longrightarrow>
      injectFaq lower html category slug = (stripExistingFaq html, False))
   \<and> (ns p = File html werr \<and> \<not> qualifies html \<longrightarrow>
      nodes (finalState (run lower ds ns)) p = File html werr)
   \<and> (nodes (finalState (run lower ds ns)) p \<noteq> ns p \<longrightarrow>
      (\<exists>h w. ns p = File h w \<and> qualifies h))"
proof (intro conjI impI)
  assume "\<not> qualifies html"
  then show "injectFaq lower html category slug = (stripExistingFaq html, False)"
    by (rule injectFaq_skip)
next
  assume a: "ns p = File html werr \<and> \<not> qualifies html"
  show "nodes (finalState (run lower ds ns)) p = File html werr"
  proof (rule ccontr)
    assume "nodes (finalState (run lower ds ns)) p \<noteq> File html werr"
    with a have "nodes (finalState (run lower ds ns)) p \<noteq> ns p" by simp
    with run_untouched [of ns lower ds] obtain h w where "ns p = File h w" "qualifies h"
      unfolding untouched_def by blast
    with a show False by simp
  qed
next
  assume "nodes (finalState (run lower ds ns)) p \<noteq> ns p"
  with run_untouched [of ns lower ds] show "\<exists>h w. ns p = File h w \<and> qualifies h"
    unfolding untouched_def by blast
qed

theorem unqualified_page_is_not_written_witness:
  "twoSectionFile (js ''science'', js ''short.html'') = File pageTwo None
   \<and> \<not> qualifies pageTwo
   \<and> injectFaq asciiLower pageTwo (js ''science'') (js ''short'')
       = (stripExistingFaq pageTwo, False)
   \<and> nodes (finalState (run asciiLower (scienceListing [js ''short.html'']) twoSectionFile))
         (js ''science'', js ''short.html'')
       = File pageTwo None"
proof -
  have h: "twoSectionFile (js ''science'', js ''short.html'') = File pageTwo None"
    by (simp add: twoSectionFile_def)
  note t = unqualified_page_is_not_written
    [where html = pageTwo and lower = asciiLower and ns = twoSectionFile and werr = None
       and p = "(js ''science'', js ''short.html'')"]
  from t [of "js ''science''" "js ''short''" "scienceListing [js ''short.html'']"]
    h pageTwo_not_qualifies
  show ?thesis by blast
qed

definition brokenThenGood :: "jstring \<times> jstring \<Rightarrow> node" where
  "brokenThenGood =
     (\<lambda>p. Unreadable (js ''ENOENT''))
       ((js ''science'', js ''broken.html'') := Unreadable (js ''EISDIR''),
        (js ''science'', js ''good.html'') := File page None)"

text \<open>
  C7 fails on the code, and the code is at fault: the \<open>try\<close> block that collects the
  failures of a file begins after the file is read. Here the first listed name cannot be
  read (a directory whose name ends in \<open>.html\<close>), and the second holds a page that
  qualifies. The run ends with the exception of the read; the error list is empty and
  the second file is as it was.
\<close>

theorem read_failure_ends_the_run:
  "qualifies page
   \<and> run asciiLower (scienceListing [js ''broken.html'', js ''good.html'']) brokenThenGood
     = Inl (js ''EISDIR'',
            \<lparr>dirs = scienceListing [js ''broken.html'', js ''good.html''],
             nodes = brokenThenGood, total = 0, skipped = 0, errors = [], count = 0\<rparr>)"
proof
  show "qualifies page" by (rule page_qualifies)
  have a: "isArticleFile (js ''broken.html'')" "isArticleFile (js ''good.html'')"
    by (simp_all only: ev cong: ev_cong)
  show "run asciiLower (scienceListing [js ''broken.html'', js ''good.html'']) brokenThenGood
     = Inl (js ''EISDIR'',
            \<lparr>dirs = scienceListing [js ''broken.html'', js ''good.html''],
             nodes = brokenThenGood, total = 0, skipped = 0, errors = [], count = 0\<rparr>)"
  proof -
    have d: "js ''broken.html'' \<noteq> js ''good.html''"
      by (simp add: js_def)
    show ?thesis
      by (simp add: run_def HTML_SOURCE_DIRS_def processDir_def scienceListing_def a d
          processFile_def brokenThenGood_def)
  qed
qed

end
